theory Spec2Isabelle
  imports Main "HOL-Library.Word" "HOL-Library.Multiset"
begin

unbundle bit_operations_syntax

section \<open>The proof-of-stake kernel of pos.cpp\<close>

text \<open>
  A shallow embedding of \<^verbatim>\<open>src/pos.cpp\<close>. Unsigned 32-bit and 64-bit values and the
  256-bit hashes are words, so that their arithmetic wraps as in the source. Values of
  type \<^verbatim>\<open>int64_t\<close> that the source builds from 32-bit times and from the constants
  below stay far inside the 64-bit range; they are integers. Where an \<^verbatim>\<open>int64_t\<close> is
  an argument that any caller may choose, it is a 64-bit word read with \<open>sint\<close>.
\<close>

type_synonym byte = "8 word"
type_synonym uint32 = "32 word"
type_synonym uint64 = "64 word"
type_synonym uint256 = "256 word"
type_synonym int64 = "64 word"

subsection \<open>Constants and checkpoint tables\<close>

definition nStakeMinAge :: uint32 where
  "nStakeMinAge = 60 * 60 * 24 * 1"

definition nStakeMaxAge :: uint32 where
  "nStakeMaxAge = 60 * 60 * 24 * 30"

definition nModifierInterval :: uint32 where
  "nModifierInterval = 8 * 60"

text \<open>
  Modelled from the spec: \<^verbatim>\<open>MODIFIER_INTERVAL_RATIO\<close> and \<^verbatim>\<open>COIN\<close> are declared in
  headers outside \<^verbatim>\<open>pos.cpp\<close>; section 4.1 of the specification gives 3 and \<open>10\<^sup>8\<close>.
\<close>

definition MODIFIER_INTERVAL_RATIO :: int where
  "MODIFIER_INTERVAL_RATIO = 3"

definition COIN :: uint64 where
  "COIN = 100000000"

definition mapStakeModifierCheckpoints :: "(int \<times> uint32) list" where
  "mapStakeModifierCheckpoints =
    [(     0, 0xfd11f4e7),
     (  1000, 0x353653fe),
     ( 10000, 0x8c341084),
     ( 50008, 0x9f0053f2),
     (100000, 0xaf212909),
     (150006, 0x3883af95),
     (200830, 0xf2daec0a),
     (250008, 0x76bd1777),
     (300836, 0x18dbac5e),
     (350003, 0x17223fa8),
     (400002, 0xd1662b8f),
     (450000, 0x0fc0c8d3),
     (500001, 0x17ac1811),
     (550004, 0xcfb3340f),
     (600014, 0x74d7cf8c),
     (621306, 0x4890a081)]"

definition mapStakeModifierCheckpointsTestNet :: "(int \<times> uint32) list" where
  "mapStakeModifierCheckpointsTestNet = [(0, 0xfd11f4e7)]"

text \<open>
  The two tables are file-level variables of the source. \<open>pos_globals\<close> holds them, so
  that which of them an operation reads can be stated.
\<close>

record pos_globals =
  g_mapStakeModifierCheckpoints :: "(int \<times> uint32) list"
  g_mapStakeModifierCheckpointsTestNet :: "(int \<times> uint32) list"

definition the_globals :: pos_globals where
  "the_globals =
     \<lparr>g_mapStakeModifierCheckpoints = mapStakeModifierCheckpoints,
      g_mapStakeModifierCheckpointsTestNet = mapStakeModifierCheckpointsTestNet\<rparr>"

text \<open>
  \<^verbatim>\<open>CheckStakeModifierCheckpoints\<close>: \<^verbatim>\<open>checkpoints.count(nHeight)\<close> is the test
  \<open>map_of \<dots> \<noteq> None\<close>, \<^verbatim>\<open>checkpoints[nHeight]\<close> the entry found.
\<close>

definition CheckStakeModifierCheckpoints_in :: "pos_globals \<Rightarrow> int \<Rightarrow> uint32 \<Rightarrow> bool" where
  "CheckStakeModifierCheckpoints_in g nHeight nStakeModifierChecksum =
     (let checkpoints = g_mapStakeModifierCheckpoints g in
      case map_of checkpoints nHeight of
        Some c \<Rightarrow> nStakeModifierChecksum = c
      | None \<Rightarrow> True)"

definition CheckStakeModifierCheckpoints :: "int \<Rightarrow> uint32 \<Rightarrow> bool" where
  "CheckStakeModifierCheckpoints = CheckStakeModifierCheckpoints_in the_globals"

text \<open>\<^verbatim>\<open>CheckCoinStakeTimestamp\<close>, on two \<^verbatim>\<open>int64_t\<close> values.\<close>

definition CheckCoinStakeTimestamp :: "int64 \<Rightarrow> int64 \<Rightarrow> bool" where
  "CheckCoinStakeTimestamp nTimeBlock nTimeTx = (nTimeBlock = nTimeTx)"

subsection \<open>Outcomes\<close>

text \<open>
  Every way a function of the source can end without returning \<^verbatim>\<open>true\<close>:
  \<^item> \<open>DoS level msg\<close> is \<^verbatim>\<open>return state.DoS(level, error(msg))\<close>: the validation state
    is marked invalid with that misbehaviour score, the consensus-fatal rejection;
  \<^item> \<open>LoggedError msg\<close> is \<^verbatim>\<open>return error(msg)\<close>: the message is logged, \<^verbatim>\<open>false\<close> returned;
  \<^item> \<open>Failed\<close> is a bare \<^verbatim>\<open>return false\<close>;
  \<^item> \<open>Crash what\<close> is undefined behaviour of the C++: a null pointer dereferenced, a
    vector read out of range, a failed \<^verbatim>\<open>assert\<close>, an exception that nothing catches.
  Messages are the source's format strings without their arguments.
\<close>

datatype failure = DoS nat string | LoggedError string | Failed | Crash string

subsection \<open>The block index\<close>

text \<open>
  A \<^verbatim>\<open>CBlockIndex\<close>. The pointer \<^verbatim>\<open>pprev\<close> to the predecessor is the predecessor itself
  (\<open>None\<close> for \<^verbatim>\<open>nullptr\<close>): the entries are not mutated by this file.
  \<^verbatim>\<open>IsProofOfStake()\<close>, \<^verbatim>\<open>GeneratedStakeModifier()\<close> and \<^verbatim>\<open>GetStakeEntropyBit()\<close> are
  accessors declared outside \<^verbatim>\<open>pos.cpp\<close>; their results are fields here, and how they
  are packed into \<open>nFlags\<close> is left open.
\<close>

datatype CBlockIndex = CBlockIndex
  (pprev: "CBlockIndex option")
  (phashBlock: uint256)
  (nHeight: int)
  (nTime: uint32)
  (nFlags: uint32)
  (nStakeModifier: uint64)
  (nStakeModifierChecksum: uint32)
  (hashProofOfStake: uint256)
  (IsProofOfStake: bool)
  (GeneratedStakeModifier: bool)
  (GetStakeEntropyBit: bool)

definition GetBlockTime :: "CBlockIndex \<Rightarrow> int" where
  "GetBlockTime pindex = uint (nTime pindex)"

definition GetBlockHash :: "CBlockIndex \<Rightarrow> uint256" where
  "GetBlockHash pindex = phashBlock pindex"

text \<open>
  What the functions read from outside the file. \<open>pnext_chain env b\<close> is the list of
  blocks reached from \<open>b\<close> by following \<^verbatim>\<open>pnext\<close> along the active chain, nearest first;
  \<^verbatim>\<open>b->pnext == nullptr\<close> is the empty list. \<open>Hash\<close> is the project's hash of a byte
  string read as a 256-bit number (\<^verbatim>\<open>UintToArith256(Hash(..))\<close>), \<open>SetCompact\<close> the
  decoding of a compact target; both are defined outside \<^verbatim>\<open>pos.cpp\<close> and are
  parameters of the model.
\<close>

record chain_env =
  mapBlockIndex :: "uint256 \<Rightarrow> CBlockIndex option"
  pnext_chain :: "CBlockIndex \<Rightarrow> CBlockIndex list"
  GetAdjustedTime :: int
  Hash :: "byte list \<Rightarrow> uint256"
  SetCompact :: "uint32 \<Rightarrow> uint256"

subsection \<open>Serialization\<close>

text \<open>
  Modelled from the spec: the stream operator \<^verbatim>\<open><<\<close> of \<^verbatim>\<open>CDataStream\<close> is defined
  outside \<^verbatim>\<open>pos.cpp\<close>. By section 6 of the specification integers are written
  little-endian at their fixed width, and a 256-bit hash as its 32 bytes, the least
  significant byte of its number first.
\<close>

definition ser_uint32 :: "uint32 \<Rightarrow> byte list" where
  "ser_uint32 w = map (\<lambda>i. ucast (drop_bit (8 * i) w)) [0..<4]"

definition ser_uint64 :: "uint64 \<Rightarrow> byte list" where
  "ser_uint64 w = map (\<lambda>i. ucast (drop_bit (8 * i) w)) [0..<8]"

definition ser_uint256 :: "uint256 \<Rightarrow> byte list" where
  "ser_uint256 w = map (\<lambda>i. ucast (drop_bit (8 * i) w)) [0..<32]"

subsection \<open>Time weight and selection interval\<close>

text \<open>
  \<^verbatim>\<open>GetWeight\<close>, on integers. The only call in the file passes two 32-bit times, for
  which neither the difference nor the result leaves the range of \<^verbatim>\<open>int64_t\<close>
  (\<open>GetWeight_fits_int64\<close> below); for other arguments the subtraction of the source can
  overflow, which the model does not follow.
\<close>

definition GetWeight :: "int \<Rightarrow> int \<Rightarrow> int" where
  "GetWeight nIntervalBeginning nIntervalEnd =
     min (nIntervalEnd - nIntervalBeginning - uint nStakeMinAge) (uint nStakeMaxAge)"

text \<open>
  The quotient is computed in \<^verbatim>\<open>unsigned int\<close>: the denominator, an \<^verbatim>\<open>int\<close>, is converted.
\<close>

definition GetStakeModifierSelectionIntervalSection :: "int \<Rightarrow> failure + int" where
  "GetStakeModifierSelectionIntervalSection nSection =
     (if \<not> (nSection \<ge> 0 \<and> nSection < 64) then Inl (Crash ''assert'')
      else Inr (uint (nModifierInterval * 63 div
                  word_of_int (63 + ((63 - nSection) * (MODIFIER_INTERVAL_RATIO - 1))))))"

fun sum_sections :: "nat list \<Rightarrow> int \<Rightarrow> failure + int" where
  "sum_sections [] nSelectionInterval = Inr nSelectionInterval"
| "sum_sections (nSection # rest) nSelectionInterval =
     (case GetStakeModifierSelectionIntervalSection (int nSection) of
        Inl e \<Rightarrow> Inl e
      | Inr x \<Rightarrow> sum_sections rest (nSelectionInterval + x))"

definition GetStakeModifierSelectionInterval :: "failure + int" where
  "GetStakeModifierSelectionInterval = sum_sections [0..<64] 0"

subsection \<open>The last generated stake modifier\<close>

lemma pprev_size [termination_simp]: "pprev b = Some p \<Longrightarrow> size p < size b"
  by (cases b) auto

lemma pprev_size_option [termination_simp]: "size_option size (pprev b) < Suc (size b)"
  by (cases b) auto

text \<open>The \<^verbatim>\<open>while\<close> loop of \<^verbatim>\<open>GetLastStakeModifier\<close>.\<close>

fun last_modifier_block :: "CBlockIndex \<Rightarrow> CBlockIndex" where
  "last_modifier_block pindex =
     (case pprev pindex of
        Some p \<Rightarrow> if \<not> GeneratedStakeModifier pindex then last_modifier_block p else pindex
      | None \<Rightarrow> pindex)"

definition GetLastStakeModifier :: "CBlockIndex option \<Rightarrow> failure + (uint64 \<times> int)" where
  "GetLastStakeModifier pindex0 =
     (case pindex0 of
        None \<Rightarrow> Inl (LoggedError ''GetLastStakeModifier: null pindex'')
      | Some pindex1 \<Rightarrow>
          let pindex = last_modifier_block pindex1 in
          if \<not> GeneratedStakeModifier pindex
          then Inl (LoggedError ''GetLastStakeModifier: no generation at genesis block'')
          else Inr (nStakeModifier pindex, GetBlockTime pindex))"

text \<open>
  The blocks that a walk back along \<^verbatim>\<open>pprev\<close> visits, the block it starts from first
  and the block without predecessor last.
\<close>

fun ancestors :: "CBlockIndex \<Rightarrow> CBlockIndex list" where
  "ancestors b = b # (case pprev b of None \<Rightarrow> [] | Some p \<Rightarrow> ancestors p)"

declare ancestors.simps [simp del]

subsection \<open>Selecting a block from the candidates\<close>

text \<open>
  The loop of \<^verbatim>\<open>SelectBlockFromCandidates\<close> over the remaining items. The loop state is
  \<open>(fSelected, hashBest, pindexSelected)\<close>; \<^verbatim>\<open>break\<close> returns it, \<^verbatim>\<open>continue\<close> goes on
  with it unchanged.
\<close>

type_synonym select_state = "bool \<times> uint256 \<times> CBlockIndex option"

text \<open>
  The selection hash of a candidate, the value of \<^verbatim>\<open>hashSelection\<close> when the loop
  body compares it (lines 109 to 118 of the source).
\<close>

definition selection_hash :: "chain_env \<Rightarrow> uint64 \<Rightarrow> CBlockIndex \<Rightarrow> uint256" where
  "selection_hash env nStakeModifierPrev pindex =
     (let hashProof = (if IsProofOfStake pindex then hashProofOfStake pindex
                       else GetBlockHash pindex);
          ss = ser_uint256 hashProof @ ser_uint64 nStakeModifierPrev;
          hashSelection = Hash env ss
      in if IsProofOfStake pindex then drop_bit 32 hashSelection else hashSelection)"

fun select_loop ::
  "chain_env \<Rightarrow> (uint256 \<Rightarrow> CBlockIndex option) \<Rightarrow> int \<Rightarrow> uint64 \<Rightarrow>
   (int \<times> uint256) list \<Rightarrow> select_state \<Rightarrow> failure + select_state" where
  "select_loop env mapSelectedBlocks nSelectionIntervalStop nStakeModifierPrev [] st = Inr st"
| "select_loop env mapSelectedBlocks nSelectionIntervalStop nStakeModifierPrev (item # rest)
     (fSelected, hashBest, pindexSelected) =
     (case mapBlockIndex env (snd item) of
        None \<Rightarrow> Inl (LoggedError
          ''SelectBlockFromCandidates: failed to find block index for candidate block'')
      | Some pindex \<Rightarrow>
          if fSelected \<and> GetBlockTime pindex > nSelectionIntervalStop
          then Inr (fSelected, hashBest, pindexSelected)
          else if mapSelectedBlocks (GetBlockHash pindex) \<noteq> None
          then select_loop env mapSelectedBlocks nSelectionIntervalStop nStakeModifierPrev rest
                 (fSelected, hashBest, pindexSelected)
          else
            let hashSelection = selection_hash env nStakeModifierPrev pindex in
              if fSelected \<and> hashSelection < hashBest
              then select_loop env mapSelectedBlocks nSelectionIntervalStop nStakeModifierPrev
                     rest (fSelected, hashSelection, Some pindex)
              else if \<not> fSelected
              then select_loop env mapSelectedBlocks nSelectionIntervalStop nStakeModifierPrev
                     rest (True, hashSelection, Some pindex)
              else select_loop env mapSelectedBlocks nSelectionIntervalStop nStakeModifierPrev
                     rest (fSelected, hashBest, pindexSelected))"

text \<open>
  \<^verbatim>\<open>SelectBlockFromCandidates\<close> returns \<open>fSelected\<close> and leaves the block chosen in
  \<^verbatim>\<open>*pindexSelected\<close>.
\<close>

definition SelectBlockFromCandidates ::
  "chain_env \<Rightarrow> (int \<times> uint256) list \<Rightarrow> (uint256 \<Rightarrow> CBlockIndex option) \<Rightarrow> int \<Rightarrow> uint64 \<Rightarrow>
   failure + (bool \<times> CBlockIndex option)" where
  "SelectBlockFromCandidates env vSortedByTimestamp mapSelectedBlocks nSelectionIntervalStop
     nStakeModifierPrev =
     (case select_loop env mapSelectedBlocks nSelectionIntervalStop nStakeModifierPrev
             vSortedByTimestamp (False, 0, None) of
        Inl e \<Rightarrow> Inl e
      | Inr (fSelected, hashBest, pindexSelected) \<Rightarrow> Inr (fSelected, pindexSelected))"

subsection \<open>Computing the next stake modifier\<close>

text \<open>
  The walk back from \<open>pindexPrev\<close> that fills \<open>vSortedByTimestamp\<close>, in the order of the
  \<^verbatim>\<open>push_back\<close> calls: newest block first.
\<close>

fun collect_candidates :: "int \<Rightarrow> CBlockIndex option \<Rightarrow> (int \<times> uint256) list" where
  "collect_candidates nSelectionIntervalStart None = []"
| "collect_candidates nSelectionIntervalStart (Some pindex) =
     (if GetBlockTime pindex \<ge> nSelectionIntervalStart
      then (GetBlockTime pindex, GetBlockHash pindex)
             # collect_candidates nSelectionIntervalStart (pprev pindex)
      else [])"

text \<open>
  \<^verbatim>\<open>std::sort\<close> with the comparison \<^verbatim>\<open>a.first < b.first\<close>. The C++ standard leaves the
  order of items with equal timestamps to the library; the model takes the insertion
  sort that keeps them in the order they had, which is what the common libraries do on
  vectors of at most 16 items. On a longer vector a library may leave items of equal
  timestamp in another order, which the model does not follow; items of different
  timestamps have one sorted order only.
\<close>

definition sort_by_timestamp :: "(int \<times> uint256) list \<Rightarrow> (int \<times> uint256) list" where
  "sort_by_timestamp v = sort_key fst v"

text \<open>
  The 64 selection rounds, for the round numbers still to run. The loop state is
  \<open>(nSelectionIntervalStop, nStakeModifierNew, mapSelectedBlocks)\<close>.
\<close>

fun select_rounds ::
  "chain_env \<Rightarrow> (int \<times> uint256) list \<Rightarrow> uint64 \<Rightarrow> nat list \<Rightarrow>
   int \<times> uint64 \<times> (uint256 \<Rightarrow> CBlockIndex option) \<Rightarrow> failure + uint64" where
  "select_rounds env vSortedByTimestamp nStakeModifier' []
     (nSelectionIntervalStop, nStakeModifierNew, mapSelectedBlocks) = Inr nStakeModifierNew"
| "select_rounds env vSortedByTimestamp nStakeModifier' (nRound # rest)
     (nSelectionIntervalStop0, nStakeModifierNew, mapSelectedBlocks) =
     (case GetStakeModifierSelectionIntervalSection (int nRound) of
        Inl e \<Rightarrow> Inl e
      | Inr section \<Rightarrow>
          let nSelectionIntervalStop = nSelectionIntervalStop0 + section in
          (case SelectBlockFromCandidates env vSortedByTimestamp mapSelectedBlocks
                  nSelectionIntervalStop nStakeModifier' of
             Inr (True, Some pindex) \<Rightarrow>
               select_rounds env vSortedByTimestamp nStakeModifier' rest
                 (nSelectionIntervalStop,
                  nStakeModifierNew OR push_bit nRound (of_bool (GetStakeEntropyBit pindex)),
                  (if mapSelectedBlocks (GetBlockHash pindex) = None
                   then mapSelectedBlocks(GetBlockHash pindex \<mapsto> pindex)
                   else mapSelectedBlocks))
           | Inr (True, None) \<Rightarrow> Inl (Crash ''null pindex'')
           | _ \<Rightarrow> Inl (LoggedError ''ComputeNextStakeModifier: unable to select block at round'')))"

text \<open>
  \<open>nPosTargetSpacing\<close> is the field of \<^verbatim>\<open>consensusParams\<close> that the source divides by
  when it reserves the vector, taken to be an \<^verbatim>\<open>int64_t\<close> as the spacing of the Bitcoin
  parameters is: zero is a division by zero, and a quotient below zero a
  size that \<^verbatim>\<open>reserve\<close> refuses with an exception. The quotient of a positive by a
  negative number, rounded towards zero as C++ does, is negative when the divisor is at
  most the numerator in absolute value. The comparison of the two interval numbers
  divides times that are not negative, where \<open>div\<close> is the division of C++.
  \<^verbatim>\<open>nHeightFirstCandidate\<close> is computed by the source and never read; it is left out.
  The variable \<^verbatim>\<open>nStakeModifier\<close> of the source is \<open>nStakeModifier'\<close>, the plain name
  being the field of the block index.
\<close>

definition ComputeNextStakeModifier ::
  "chain_env \<Rightarrow> CBlockIndex option \<Rightarrow> int \<Rightarrow> failure + (uint64 \<times> bool)" where
  "ComputeNextStakeModifier env pindexPrev0 nPosTargetSpacing =
     (case pindexPrev0 of
        None \<Rightarrow> Inr (0, True)
      | Some pindexPrev \<Rightarrow>
         (case GetLastStakeModifier (Some pindexPrev) of
            Inl e \<Rightarrow> Inl (LoggedError ''ComputeNextStakeModifier: unable to get last modifier'')
          | Inr (nStakeModifier', nModifierTime) \<Rightarrow>
              if nModifierTime div uint nModifierInterval
                   \<ge> GetBlockTime pindexPrev div uint nModifierInterval
              then Inr (nStakeModifier', False)
              else if nPosTargetSpacing = 0 then Inl (Crash ''division by zero'')
              else if nPosTargetSpacing < 0 \<and> - nPosTargetSpacing \<le> uint (64 * nModifierInterval)
              then Inl (Crash ''reserve'')
              else
                (case GetStakeModifierSelectionInterval of
                   Inl e \<Rightarrow> Inl e
                 | Inr nSelectionInterval \<Rightarrow>
                     let nSelectionIntervalStart =
                           (GetBlockTime pindexPrev div uint nModifierInterval)
                             * uint nModifierInterval - nSelectionInterval;
                         vCollected = collect_candidates nSelectionIntervalStart (Some pindexPrev);
                         vSortedByTimestamp = sort_by_timestamp (rev vCollected)
                     in
                       (case select_rounds env vSortedByTimestamp nStakeModifier'
                               [0 ..< min 64 (length vSortedByTimestamp)]
                               (nSelectionIntervalStart, 0, Map.empty) of
                          Inl e \<Rightarrow> Inl e
                        | Inr nStakeModifierNew \<Rightarrow> Inr (nStakeModifierNew, True)))))"

subsection \<open>The kernel stake modifier\<close>

text \<open>
  The \<^verbatim>\<open>while\<close> loop of \<^verbatim>\<open>GetKernelStakeModifier\<close>: \<open>pindex\<close> is the block the walk stands
  on, \<open>nexts\<close> the blocks after it along \<^verbatim>\<open>pnext\<close>, and the loop state is
  \<open>(nStakeModifierHeight, nStakeModifierTime)\<close>. \<open>limit\<close> is
  \<^verbatim>\<open>pindexFrom->nTime + nStakeModifierSelectionInterval\<close>.
\<close>

fun kernel_modifier_walk ::
  "int \<Rightarrow> int \<Rightarrow> int \<Rightarrow> CBlockIndex \<Rightarrow> CBlockIndex list \<Rightarrow> int \<times> int \<Rightarrow>
   failure + (uint64 \<times> int \<times> int)" where
  "kernel_modifier_walk limit nStakeModifierSelectionInterval now pindex nexts
     (nStakeModifierHeight, nStakeModifierTime) =
     (if nStakeModifierTime < limit then
        (case nexts of
           [] \<Rightarrow>
             if GetBlockTime pindex + uint nStakeMinAge - nStakeModifierSelectionInterval > now
             then Inl (LoggedError ''GetKernelStakeModifier() : reached best block'')
             else Inl Failed
         | pnext # rest \<Rightarrow>
             kernel_modifier_walk limit nStakeModifierSelectionInterval now pnext rest
               (if GeneratedStakeModifier pnext then (nHeight pnext, uint (nTime pnext))
                else (nStakeModifierHeight, nStakeModifierTime)))
      else Inr (nStakeModifier pindex, nStakeModifierHeight, nStakeModifierTime))"

definition GetKernelStakeModifier ::
  "chain_env \<Rightarrow> CBlockIndex \<Rightarrow> failure + (uint64 \<times> int \<times> int)" where
  "GetKernelStakeModifier env pindexFrom =
     (case GetStakeModifierSelectionInterval of
        Inl e \<Rightarrow> Inl e
      | Inr nStakeModifierSelectionInterval \<Rightarrow>
          kernel_modifier_walk (uint (nTime pindexFrom) + nStakeModifierSelectionInterval)
            nStakeModifierSelectionInterval (GetAdjustedTime env) pindexFrom
            (pnext_chain env pindexFrom) (nHeight pindexFrom, uint (nTime pindexFrom)))"

subsection \<open>The stake modifier checksum\<close>

text \<open>
  \<^verbatim>\<open>GetStakeModifierChecksum\<close>: \<^verbatim>\<open>Get64()\<close> is the low 64 bits of the shifted number, and
  the return type \<^verbatim>\<open>unsigned int\<close> keeps the low 32 of those.
\<close>

definition GetStakeModifierChecksum :: "chain_env \<Rightarrow> CBlockIndex \<Rightarrow> uint32" where
  "GetStakeModifierChecksum env pindex =
     (let ss0 = (case pprev pindex of
                   Some p \<Rightarrow> ser_uint32 (nStakeModifierChecksum p)
                 | None \<Rightarrow> []);
          ss = ss0 @ ser_uint32 (nFlags pindex) @ ser_uint256 (hashProofOfStake pindex)
                 @ ser_uint64 (nStakeModifier pindex);
          hashChecksum = Hash env ss;
          hashChecksum0 = drop_bit (256 - 32) hashChecksum;
          get64 = (ucast hashChecksum0 :: uint64)
      in ucast get64)"

subsection \<open>Checking the kernel hash\<close>

text \<open>
  What the file reads of transactions, outputs and coins. The fields \<^verbatim>\<open>hash\<close> and \<^verbatim>\<open>n\<close>
  of an outpoint, \<^verbatim>\<open>nTime\<close> of a transaction, \<^verbatim>\<open>nBits\<close> of a block and \<^verbatim>\<open>nHeight\<close> of a
  coin carry a prefix. \<^verbatim>\<open>IsCoinStake()\<close> is defined outside \<^verbatim>\<open>pos.cpp\<close>; its result is a
  field.
\<close>

datatype COutPoint = COutPoint (prevout_hash: uint256) (prevout_n: uint32)

datatype CTxOut = CTxOut (nValue: int64)

datatype CTxIn = CTxIn (prevout: COutPoint)

datatype CTransaction = CTransaction
  (tx_nTime: uint32)
  (vin: "CTxIn list")
  (vout: "CTxOut list")
  (IsCoinStake: bool)

datatype CBlock = CBlock (vtx: "CTransaction list") (block_nBits: uint32)

datatype Coin = Coin (coin_nHeight: int)

text \<open>
  Modelled from the spec: the 256-bit integer class \<^verbatim>\<open>arith_uint256\<close> is defined outside
  \<^verbatim>\<open>pos.cpp\<close>; by section 4.4.2 of the specification \<^verbatim>\<open>bnCoinDayWeight\<close> is the value
  times the weight, divided by \<^verbatim>\<open>COIN\<close> and by 86400, in 256-bit integer arithmetic.
  \<^verbatim>\<open>arith_uint256(nValuePrev)\<close> extends the 64 bits of the value with zeros. The weight
  is at most \<^verbatim>\<open>nStakeMaxAge\<close>; where it is not negative it enters the product as the
  number it is. For a negative weight the specification says nothing; the model then
  takes its low 32 bits, as the class of the Bitcoin code does for a built-in integer.
\<close>

definition bnCoinDayWeight_of :: "int64 \<Rightarrow> uint32 \<Rightarrow> uint32 \<Rightarrow> uint256" where
  "bnCoinDayWeight_of nValuePrev nTimeTxPrev nTimeTx =
     (ucast nValuePrev :: uint256)
       * ucast (word_of_int (GetWeight (uint nTimeTxPrev) (uint nTimeTx)) :: uint32)
       div ucast COIN div (24 * 60 * 60)"

text \<open>
  \<^verbatim>\<open>CheckStakeKernelHash\<close>. The last argument holds the values of the reference
  parameters \<^verbatim>\<open>hashProofOfStake\<close> and \<^verbatim>\<open>targetProofOfStake\<close> at the call; the result is
  what the function returns together with their values afterwards. The sum
  \<^verbatim>\<open>nTimeBlockFrom + nStakeMinAge\<close> is one of \<^verbatim>\<open>unsigned int\<close>.
\<close>

definition CheckStakeKernelHash ::
  "chain_env \<Rightarrow> uint32 \<Rightarrow> CBlockIndex option \<Rightarrow> CTransaction \<Rightarrow> uint32 \<Rightarrow> COutPoint \<Rightarrow> uint32 \<Rightarrow>
   uint256 \<times> uint256 \<Rightarrow> (failure + unit) \<times> uint256 \<times> uint256" where
  "CheckStakeKernelHash env nBits pBlockFrom0 txPrev nTxPrevOffset prevout' nTimeTx out =
     (let (hashProofOfStake0, targetProofOfStake0) = out in
      if nTimeTx < tx_nTime txPrev
      then (Inl (DoS 100 ''CheckStakeKernelHash() : nTime violation''),
            hashProofOfStake0, targetProofOfStake0)
      else
       (case pBlockFrom0 of
          None \<Rightarrow> (Inl (Crash ''null pBlockFrom''), hashProofOfStake0, targetProofOfStake0)
        | Some pBlockFrom \<Rightarrow>
            let nTimeBlockFrom = nTime pBlockFrom in
            if nTimeBlockFrom + nStakeMinAge > nTimeTx
            then (Inl (DoS 100 ''CheckStakeKernelHash() : min age violation''),
                  hashProofOfStake0, targetProofOfStake0)
            else
              let bnTargetPerCoinDay = SetCompact env nBits in
              if \<not> unat (prevout_n prevout') < length (vout txPrev)
              then (Inl (Crash ''vout index''), hashProofOfStake0, targetProofOfStake0)
              else
                let nValuePrev = nValue (vout txPrev ! unat (prevout_n prevout'));
                    bnCoinDayWeight = bnCoinDayWeight_of nValuePrev (tx_nTime txPrev) nTimeTx;
                    targetProofOfStake1 = bnCoinDayWeight * bnTargetPerCoinDay
                in
                  (case GetKernelStakeModifier env pBlockFrom of
                     Inl (Crash what) \<Rightarrow>
                       (Inl (Crash what), hashProofOfStake0, targetProofOfStake1)
                   | Inl e \<Rightarrow> (Inl Failed, hashProofOfStake0, targetProofOfStake1)
                   | Inr (nStakeModifier', nStakeModifierHeight, nStakeModifierTime) \<Rightarrow>
                       let ss = ser_uint64 nStakeModifier' @ ser_uint32 nTimeBlockFrom
                                  @ ser_uint32 nTxPrevOffset @ ser_uint32 (tx_nTime txPrev)
                                  @ ser_uint32 (prevout_n prevout') @ ser_uint32 nTimeTx;
                           hashProofOfStake1 = Hash env ss
                       in
                         if hashProofOfStake1 > bnCoinDayWeight * bnTargetPerCoinDay
                         then (Inl Failed, hashProofOfStake1, targetProofOfStake1)
                         else (Inr (), hashProofOfStake1, targetProofOfStake1))))"

subsection \<open>Checking the proof of stake\<close>

text \<open>
  The collaborators of \<^verbatim>\<open>CheckProofOfStake\<close>, all defined outside \<^verbatim>\<open>pos.cpp\<close>:
  \<open>ReadTxIndex\<close> is the transaction index of \<^verbatim>\<open>blockTreeDB\<close>; \<open>ReadBlockFile\<close> is
  \<^verbatim>\<open>OpenBlockFile\<close> followed by the reads inside the \<^verbatim>\<open>try\<close> block, and gives the hash of
  the header read and the previous transaction; \<open>GetCoin\<close> is the lookup of \<^verbatim>\<open>view\<close>.
\<close>

datatype CDiskTxPos = CDiskTxPos (nFile: int) (nPos: uint32) (nTxOffset: uint32)

datatype disk_read = FileIsNull | ReadException | ReadOk uint256 CTransaction

record validation_env =
  ReadTxIndex :: "uint256 \<Rightarrow> CDiskTxPos option"
  ReadBlockFile :: "CDiskTxPos \<Rightarrow> disk_read"
  GetCoin :: "COutPoint \<Rightarrow> Coin option"
  GetAncestor :: "CBlockIndex \<Rightarrow> int \<Rightarrow> CBlockIndex option"
  COINBASE_MATURITY :: int

text \<open>
  \<^verbatim>\<open>CheckProofOfStake\<close>, for a \<open>pindexPrev\<close> that is not null. When
  \<^verbatim>\<open>CheckStakeKernelHash\<close> returns \<^verbatim>\<open>false\<close>, whatever the reason, the function ends with
  its own \<^verbatim>\<open>state.DoS(100, ..)\<close>.
\<close>

definition CheckProofOfStake ::
  "chain_env \<Rightarrow> validation_env \<Rightarrow> CBlockIndex \<Rightarrow> CBlock \<Rightarrow> uint256 \<times> uint256 \<Rightarrow>
   (failure + unit) \<times> uint256 \<times> uint256" where
  "CheckProofOfStake env venv pindexPrev block out =
     (if \<not> 1 < length (vtx block) then (Inl (Crash ''vtx index''), out)
      else
        let tx = vtx block ! 1; nBits = block_nBits block in
        if \<not> IsCoinStake tx
        then (Inl (DoS 100 ''CheckProofOfStake() : called on non-coinstake''), out)
        else if vin tx = [] then (Inl (Crash ''vin index''), out)
        else
          let txin = vin tx ! 0 in
          (case ReadTxIndex venv (prevout_hash (prevout txin)) of
             None \<Rightarrow> (Inl (DoS 100 ''>> CheckProofOfStake() : blockTreeDB.ReadTxIndex failed.''), out)
           | Some txindex \<Rightarrow>
               let nTxPrevOffset = nTxOffset txindex + 80 in
               (case ReadBlockFile venv txindex of
                  FileIsNull \<Rightarrow> (Inl (DoS 100 ''CheckProofOfStake() : OpenBlockFile failed''), out)
                | ReadException \<Rightarrow>
                    (Inl (DoS 100
                       ''CheckProofOfStake() : Deserialize or I/O error, can't get prev tx''), out)
                | ReadOk hashPrev txPrev \<Rightarrow>
                    let pBlockFrom = mapBlockIndex env hashPrev in
                    (case GetCoin venv (prevout txin) of
                       None \<Rightarrow>
                         (Inl (DoS 100 ''CheckProofOfStake() : Stake prevout does not exist''), out)
                     | Some coinPrev \<Rightarrow>
                         if nHeight pindexPrev + 1 - coin_nHeight coinPrev < COINBASE_MATURITY venv
                         then (Inl (DoS 100
                                 ''CheckProofOfStake() : Stake prevout is not mature''), out)
                         else
                           (case GetAncestor venv pindexPrev (coin_nHeight coinPrev) of
                              None \<Rightarrow>
                                (Inl (DoS 100
                                   ''CheckProofOfStake() : Block for prevout can not be loaded''),
                                 out)
                            | Some blockFrom \<Rightarrow>
                                (case CheckStakeKernelHash env nBits pBlockFrom txPrev
                                        nTxPrevOffset (prevout txin) (tx_nTime tx) out of
                                   (Inr u, out1) \<Rightarrow> (Inr (), out1)
                                 | (Inl (Crash what), out1) \<Rightarrow> (Inl (Crash what), out1)
                                 | (Inl e, out1) \<Rightarrow>
                                     (Inl (DoS 100
                                        ''CheckProofOfStake() : INFO: check kernel failed on coinstake''),
                                      out1)))))))"

section \<open>The specification's own wording\<close>

text \<open>
  The byte layout that section 4.5 of the specification gives for the input of the
  checksum hash, written with division and remainder on numbers: \<open>le_bytes k v\<close> is
  the little-endian form of \<open>v\<close> in \<open>k\<close> bytes, and the checksum of the predecessor is
  left out for a block that has none.
\<close>

definition le_bytes :: "nat \<Rightarrow> nat \<Rightarrow> byte list" where
  "le_bytes k v = map (\<lambda>i. word_of_nat (v div 256 ^ i mod 256)) [0..<k]"

definition spec_checksum_input :: "CBlockIndex \<Rightarrow> byte list" where
  "spec_checksum_input block =
     (case pprev block of
        None \<Rightarrow> []
      | Some prev \<Rightarrow> le_bytes 4 (unat (nStakeModifierChecksum prev)))
     @ le_bytes 4 (unat (nFlags block))
     @ le_bytes 32 (unat (hashProofOfStake block))
     @ le_bytes 8 (unat (nStakeModifier block))"

text \<open>
  The ordering that the note in section 4.3.2 of the specification compares the
  source with: a stable sort by time of the ancestor list as it was collected.
\<close>

definition stable_sort_by_time_spec :: "(int \<times> uint256) list \<Rightarrow> (int \<times> uint256) list" where
  "stable_sort_by_time_spec vCollected = sort_key fst vCollected"

section \<open>Example data\<close>

text \<open>
  Instances of the two parameters, for the examples below: a stand-in hash that is
  not the project's, and the decoding of a compact target as Bitcoin does it, without
  its sign and overflow flags.
\<close>

definition ex_Hash :: "byte list \<Rightarrow> uint256" where
  "ex_Hash bs = push_bit 32 (word_of_nat (length bs)) + word_of_nat (sum_list (map unat bs))"

definition ex_SetCompact :: "uint32 \<Rightarrow> uint256" where
  "ex_SetCompact nCompact =
     (let nSize = unat (drop_bit 24 nCompact);
          nWord = (ucast (nCompact AND 0x007fffff) :: uint256)
      in if nSize \<le> 3 then drop_bit (8 * (3 - nSize)) nWord
         else push_bit (8 * (nSize - 3)) nWord)"

text \<open>
  A block at time 1000000 whose successor on the active chain, one selection interval
  later, generated the stake modifier 42; and a transaction of that time with one output
  of 50 coins.
\<close>

definition ex_from :: CBlockIndex where
  "ex_from = CBlockIndex None 0x0f 10 1000000 0 5 0 0 False True False"

definition ex_later :: CBlockIndex where
  "ex_later = CBlockIndex (Some ex_from) 0x10 11 1016900 0 42 0 0 False True True"

definition ex_env :: chain_env where
  "ex_env = \<lparr>mapBlockIndex = map_of [(0x0f, ex_from), (0x10, ex_later)],
             pnext_chain = (\<lambda>b. if b = ex_from then [ex_later] else []),
             GetAdjustedTime = 1200000,
             Hash = ex_Hash,
             SetCompact = ex_SetCompact\<rparr>"

definition ex_txPrev :: CTransaction where
  "ex_txPrev = CTransaction 1000000 [] [CTxOut 5000000000] False"

text \<open>
  A block whose 32-bit time is the largest there is, and a transaction of time 0.
\<close>

definition ex_late_block :: CBlockIndex where
  "ex_late_block = CBlockIndex None 0x20 20 0xFFFFFFFF 0 0 0 0 False True False"

definition ex_txPrev0 :: CTransaction where
  "ex_txPrev0 = CTransaction 0 [] [CTxOut 5000000000] False"

text \<open>
  A chain that ends one selection interval after \<open>ex_from\<close>, in a block that did not
  generate a stake modifier, seen at the time \<open>1000000 + 86400 - 16900\<close>.
\<close>

definition ex_unflagged :: CBlockIndex where
  "ex_unflagged = CBlockIndex (Some ex_from) 0x11 11 1016900 0 0 0 0 False False True"

definition ex_env_behind :: chain_env where
  "ex_env_behind = \<lparr>mapBlockIndex = map_of [(0x0f, ex_from), (0x11, ex_unflagged)],
             pnext_chain = (\<lambda>b. if b = ex_from then [ex_unflagged] else []),
             GetAdjustedTime = 1069500,
             Hash = ex_Hash,
             SetCompact = ex_SetCompact\<rparr>"

text \<open>
  Two blocks of the same time 100000 on top of a block that generated the stake
  modifier 7 long before; the newer of the two has the entropy bit set.
\<close>

definition ex_G :: CBlockIndex where
  "ex_G = CBlockIndex None 0x30 0 1000 0 7 0 0 False True False"

definition ex_B :: CBlockIndex where
  "ex_B = CBlockIndex (Some ex_G) 0x31 1 100000 0 0 0 0 False False False"

definition ex_A :: CBlockIndex where
  "ex_A = CBlockIndex (Some ex_B) 0x32 2 100000 0 0 0 0 False False True"

definition ex_env_ties :: chain_env where
  "ex_env_ties = \<lparr>mapBlockIndex = map_of [(0x30, ex_G), (0x31, ex_B), (0x32, ex_A)],
             pnext_chain = (\<lambda>b. []),
             GetAdjustedTime = 100000,
             Hash = ex_Hash,
             SetCompact = ex_SetCompact\<rparr>"

text \<open>
  A block with a coinstake that spends output 0 of the transaction \<open>0xabc\<close>. The
  transaction index and the coin view know that transaction, the coin is mature, and
  the block file gives \<open>ex_txPrev\<close> under a header whose hash is \<open>hashPrev\<close>.
\<close>

definition ex_coinstake :: CTransaction where
  "ex_coinstake = CTransaction 1172800 [CTxIn (COutPoint 0xabc 0)] [] True"

definition ex_block :: CBlock where
  "ex_block = CBlock [CTransaction 1172800 [] [] False, ex_coinstake] 0x1e0fffff"

definition ex_tip :: CBlockIndex where
  "ex_tip = CBlockIndex (Some ex_later) 0x12 100 1172700 0 42 0 0 True False False"

definition ex_venv :: "uint256 \<Rightarrow> validation_env" where
  "ex_venv hashPrev =
     \<lparr>ReadTxIndex = (\<lambda>h. if h = 0xabc then Some (CDiskTxPos 0 0 1) else None),
      ReadBlockFile = (\<lambda>pos. ReadOk hashPrev ex_txPrev),
      GetCoin = (\<lambda>outpoint. if outpoint = COutPoint 0xabc 0 then Some (Coin 10) else None),
      GetAncestor = (\<lambda>b h. if h = 10 then Some ex_from else None),
      COINBASE_MATURITY = 40\<rparr>"

text \<open>
  Three candidates of one round: a proof-of-stake block whose proof hash is \<open>0x77\<close>, a
  proof-of-work block whose block hash is \<open>0x77\<close>, so that both hash the same bytes,
  and a second proof-of-work block.
\<close>

definition ex_pos :: CBlockIndex where
  "ex_pos = CBlockIndex None 0x41 5 2000 0 0 0 0x77 True False False"

definition ex_pow :: CBlockIndex where
  "ex_pow = CBlockIndex None 0x77 6 2100 0 0 0 0 False False True"

definition ex_pow2 :: CBlockIndex where
  "ex_pow2 = CBlockIndex None 0x78 7 2050 0 0 0 0 False False True"

definition ex_env_round :: chain_env where
  "ex_env_round = \<lparr>mapBlockIndex = map_of [(0x41, ex_pos), (0x77, ex_pow), (0x78, ex_pow2)],
             pnext_chain = (\<lambda>b. []),
             GetAdjustedTime = 3000,
             Hash = ex_Hash,
             SetCompact = ex_SetCompact\<rparr>"

text \<open>
  Two blocks on top of \<open>ex_from\<close> that did not generate a stake modifier, both in the
  480-second interval of \<open>ex_from\<close>.
\<close>

definition ex_child :: CBlockIndex where
  "ex_child = CBlockIndex (Some ex_from) 0x13 11 1000100 0 0 0 0 False False True"

definition ex_grandchild :: CBlockIndex where
  "ex_grandchild = CBlockIndex (Some ex_child) 0x14 12 1000200 0 0 0 0 True False False"

text \<open>
  A block 1000 seconds before the end of the 32-bit times, with a transaction of its
  time.
\<close>

definition ex_block_2106 :: CBlockIndex where
  "ex_block_2106 = CBlockIndex None 0x21 21 4294966296 0 0 0 0 False True False"

definition ex_tx_2106 :: CTransaction where
  "ex_tx_2106 = CTransaction 4294966296 [] [CTxOut 5000000000] False"

section \<open>Properties\<close>

subsection \<open>Values of the constants\<close>

lemma uint_nModifierInterval: "uint nModifierInterval = 480"
  by (simp add: nModifierInterval_def)

lemma unat_nStakeMinAge: "unat nStakeMinAge = 86400"
  by (simp add: nStakeMinAge_def)

lemma uint_nStakeMinAge: "uint nStakeMinAge = 86400"
  by (simp add: nStakeMinAge_def)

lemma GetStakeModifierSelectionInterval_value:
  "GetStakeModifierSelectionInterval = Inr 16900"
  by (simp add: GetStakeModifierSelectionInterval_def upt_rec
      GetStakeModifierSelectionIntervalSection_def nModifierInterval_def
      MODIFIER_INTERVAL_RATIO_def)

lemma GetWeight_bounds:
  assumes "0 \<le> b" "b < 2 ^ 32" "0 \<le> e" "e < 2 ^ 32"
  shows "- (2 ^ 63) < e - b - uint nStakeMinAge
     \<and> e - b - uint nStakeMinAge < 2 ^ 63
     \<and> - (2 ^ 63) < GetWeight b e
     \<and> GetWeight b e \<le> 2592000"
  using assms by (simp add: GetWeight_def nStakeMinAge_def nStakeMaxAge_def)

lemma GetWeight_fits_int64:
  fixes nTimeTxPrev nTimeTx :: uint32
  shows "- (2 ^ 63) < uint nTimeTx - uint nTimeTxPrev - uint nStakeMinAge
     \<and> uint nTimeTx - uint nTimeTxPrev - uint nStakeMinAge < 2 ^ 63
     \<and> - (2 ^ 63) < GetWeight (uint nTimeTxPrev) (uint nTimeTx)
     \<and> GetWeight (uint nTimeTxPrev) (uint nTimeTx) \<le> 2592000"
proof (rule GetWeight_bounds)
  show "0 \<le> uint nTimeTxPrev" "0 \<le> uint nTimeTx" by simp_all
  show "uint nTimeTxPrev < 2 ^ 32" "uint nTimeTx < 2 ^ 32"
    using uint_lt2p [of nTimeTx] uint_lt2p [of nTimeTxPrev] by simp_all
qed

lemma ex_GetKernelStakeModifier:
  "GetKernelStakeModifier ex_env ex_from = Inr (42, 11, 1016900)"
  by (simp add: GetKernelStakeModifier_def GetStakeModifierSelectionInterval_value
      ex_env_def ex_from_def ex_later_def)

subsection \<open>The kernel hash check\<close>

text \<open>
  C1. When \<open>time_tx \<ge> tx_prev.time\<close> and \<open>block_from.time + STAKE_MIN_AGE \<le> time_tx\<close> hold,
  the output read exists and the kernel stake modifier \<open>M\<close> is available, the call
  returns \<^verbatim>\<open>true\<close> exactly when the hash of \<open>M\<close>, the block time, the offset, the
  transaction time, the output index and the spending time is at most the product of
  the coin-day weight and the target per coin-day, taken in 256 bits; a hash equal to
  the target passes. Hash and target are the values returned.
\<close>

theorem C1_kernel_hash_accept_iff:
  assumes time_ok: "unat (tx_nTime txPrev) \<le> unat nTimeTx"
    and min_age: "unat (nTime blockFrom) + 86400 \<le> unat nTimeTx"
    and index_ok: "unat (prevout_n outpoint) < length (vout txPrev)"
    and modifier: "GetKernelStakeModifier env blockFrom = Inr (M, h, t)"
    and hash_proof: "hash_proof = Hash env
           (ser_uint64 M @ ser_uint32 (nTime blockFrom) @ ser_uint32 nTxPrevOffset
              @ ser_uint32 (tx_nTime txPrev) @ ser_uint32 (prevout_n outpoint)
              @ ser_uint32 nTimeTx)"
    and weight: "coin_day_weight =
           bnCoinDayWeight_of (nValue (vout txPrev ! unat (prevout_n outpoint)))
             (tx_nTime txPrev) nTimeTx"
    and target: "target_per_coin_day = SetCompact env nBits"
  shows "CheckStakeKernelHash env nBits (Some blockFrom) txPrev nTxPrevOffset outpoint nTimeTx out
           = (if unat hash_proof \<le> (unat coin_day_weight * unat target_per_coin_day) mod 2 ^ 256
              then Inr () else Inl Failed,
              hash_proof, coin_day_weight * target_per_coin_day)"
proof -
  have first: "\<not> nTimeTx < tx_nTime txPrev"
    using time_ok by (simp add: word_less_nat_alt)
  have "unat nTimeTx < 2 ^ 32"
    using unsigned_less [of nTimeTx, where ?'a = nat] by simp
  with min_age have "unat (nTime blockFrom + nStakeMinAge) = unat (nTime blockFrom) + 86400"
    by (simp add: unat_word_ariths unat_nStakeMinAge)
  with min_age have second: "\<not> nTime blockFrom + nStakeMinAge > nTimeTx"
    by (simp add: word_less_nat_alt)
  have compare: "hash_proof \<le> coin_day_weight * target_per_coin_day
      \<longleftrightarrow> unat hash_proof \<le> (unat coin_day_weight * unat target_per_coin_day) mod 2 ^ 256"
    by (simp add: word_le_nat_alt unat_word_ariths)
  show ?thesis
    using first second index_ok modifier hash_proof weight target compare
    by (cases out) (simp add: CheckStakeKernelHash_def Let_def not_less)
qed

theorem C1_kernel_hash_accept_iff_witness:
  "unat (tx_nTime ex_txPrev) \<le> unat (1172800 :: uint32)
   \<and> unat (nTime ex_from) + 86400 \<le> unat (1172800 :: uint32)
   \<and> unat (prevout_n (COutPoint 0 0)) < length (vout ex_txPrev)
   \<and> GetKernelStakeModifier ex_env ex_from = Inr (42, 11, 1016900)
   \<and> CheckStakeKernelHash ex_env 0x1e0fffff (Some ex_from) ex_txPrev 81 (COutPoint 0 0)
        1172800 (0, 0)
      = (Inr (), 120259085011,
         5521391811817867602088469793920236178439271232981539216674456663490560000)"
proof -
  have time_ok: "unat (tx_nTime ex_txPrev) \<le> unat (1172800 :: uint32)"
    by (simp add: ex_txPrev_def)
  have min_age: "unat (nTime ex_from) + 86400 \<le> unat (1172800 :: uint32)"
    by (simp add: ex_from_def)
  have index_ok: "unat (prevout_n (COutPoint 0 0)) < length (vout ex_txPrev)"
    by (simp add: ex_txPrev_def)
  note call = C1_kernel_hash_accept_iff [where nTxPrevOffset = 81 and nBits = "0x1e0fffff"
      and out = "(0, 0)", OF time_ok min_age index_ok ex_GetKernelStakeModifier refl refl refl]
  have hash_value: "Hash ex_env
           (ser_uint64 42 @ ser_uint32 (nTime ex_from) @ ser_uint32 81
              @ ser_uint32 (tx_nTime ex_txPrev) @ ser_uint32 0 @ ser_uint32 1172800)
       = 120259085011"
    by (simp add: ex_env_def ex_Hash_def ex_from_def ex_txPrev_def ser_uint64_def
        ser_uint32_def upt_rec)
  have weight_value:
    "bnCoinDayWeight_of (nValue (vout ex_txPrev ! 0)) (tx_nTime ex_txPrev) 1172800 = 50"
    by (simp add: ex_txPrev_def bnCoinDayWeight_of_def GetWeight_def nStakeMinAge_def
        nStakeMaxAge_def COIN_def)
  have target_value: "SetCompact ex_env 0x1e0fffff
      = 110427836236357352041769395878404723568785424659630784333489133269811200"
    by (simp add: ex_env_def ex_SetCompact_def)
  show ?thesis
    using call time_ok min_age index_ok ex_GetKernelStakeModifier
    by (simp add: hash_value weight_value target_value)
qed

lemma min_age_word:
  "nTime b + nStakeMinAge > nTimeTx \<longleftrightarrow> unat nTimeTx < (unat (nTime b) + 86400) mod 2 ^ 32"
  by (simp add: word_less_nat_alt unat_word_ariths unat_nStakeMinAge)

lemma kernel_check_not_DoS:
  assumes "\<not> nTimeTx < tx_nTime txPrev" and "\<not> nTime b + nStakeMinAge > nTimeTx"
  shows "fst (CheckStakeKernelHash env nBits (Some b) txPrev off po nTimeTx out)
           \<noteq> Inl (DoS level msg)"
  using assms
  by (cases out)
    (auto simp add: CheckStakeKernelHash_def Let_def split: sum.splits failure.splits prod.splits)

text \<open>
  Where \<^verbatim>\<open>CheckStakeKernelHash\<close> rejects with \<open>DoS 100\<close>, leaving both output parameters
  as they were: when \<open>time_tx < tx_prev.time\<close>, and otherwise when \<open>time_tx\<close> is below the
  32-bit sum of the block time and the minimum age, which is their sum as long as that
  is below \<open>2\<^sup>3\<^sup>2\<close>. In no other case does it reject with a \<open>DoS\<close>.
\<close>

lemma kernel_check_DoS_cases:
  "(unat nTimeTx < unat (tx_nTime txPrev) \<longrightarrow>
      CheckStakeKernelHash env nBits (Some blockFrom) txPrev off po nTimeTx out
        = (Inl (DoS 100 ''CheckStakeKernelHash() : nTime violation''), out))
   \<and> (unat (tx_nTime txPrev) \<le> unat nTimeTx
        \<and> unat nTimeTx < (unat (nTime blockFrom) + 86400) mod 2 ^ 32 \<longrightarrow>
      CheckStakeKernelHash env nBits (Some blockFrom) txPrev off po nTimeTx out
        = (Inl (DoS 100 ''CheckStakeKernelHash() : min age violation''), out))
   \<and> (unat (tx_nTime txPrev) \<le> unat nTimeTx
        \<and> unat (nTime blockFrom) + 86400 < 2 ^ 32
        \<and> unat nTimeTx < unat (nTime blockFrom) + 86400 \<longrightarrow>
      CheckStakeKernelHash env nBits (Some blockFrom) txPrev off po nTimeTx out
        = (Inl (DoS 100 ''CheckStakeKernelHash() : min age violation''), out))
   \<and> (unat (tx_nTime txPrev) \<le> unat nTimeTx
        \<and> (unat (nTime blockFrom) + 86400) mod 2 ^ 32 \<le> unat nTimeTx \<longrightarrow>
      (\<forall>level msg.
         fst (CheckStakeKernelHash env nBits (Some blockFrom) txPrev off po nTimeTx out)
           \<noteq> Inl (DoS level msg)))"
proof (intro conjI impI)
  assume "unat nTimeTx < unat (tx_nTime txPrev)"
  then have "nTimeTx < tx_nTime txPrev" by (simp add: word_less_nat_alt)
  then show "CheckStakeKernelHash env nBits (Some blockFrom) txPrev off po nTimeTx out
        = (Inl (DoS 100 ''CheckStakeKernelHash() : nTime violation''), out)"
    by (cases out) (simp add: CheckStakeKernelHash_def)
next
  assume a: "unat (tx_nTime txPrev) \<le> unat nTimeTx
        \<and> unat nTimeTx < (unat (nTime blockFrom) + 86400) mod 2 ^ 32"
  then have "\<not> nTimeTx < tx_nTime txPrev" by (simp add: word_less_nat_alt)
  moreover from a have "nTime blockFrom + nStakeMinAge > nTimeTx" by (simp add: min_age_word)
  ultimately show "CheckStakeKernelHash env nBits (Some blockFrom) txPrev off po nTimeTx out
        = (Inl (DoS 100 ''CheckStakeKernelHash() : min age violation''), out)"
    by (cases out) (simp add: CheckStakeKernelHash_def)
next
  assume a: "unat (tx_nTime txPrev) \<le> unat nTimeTx
        \<and> unat (nTime blockFrom) + 86400 < 2 ^ 32
        \<and> unat nTimeTx < unat (nTime blockFrom) + 86400"
  then have "\<not> nTimeTx < tx_nTime txPrev" by (simp add: word_less_nat_alt)
  moreover from a have "nTime blockFrom + nStakeMinAge > nTimeTx" by (simp add: min_age_word)
  ultimately show "CheckStakeKernelHash env nBits (Some blockFrom) txPrev off po nTimeTx out
        = (Inl (DoS 100 ''CheckStakeKernelHash() : min age violation''), out)"
    by (cases out) (simp add: CheckStakeKernelHash_def)
next
  assume a: "unat (tx_nTime txPrev) \<le> unat nTimeTx
        \<and> (unat (nTime blockFrom) + 86400) mod 2 ^ 32 \<le> unat nTimeTx"
  then have "\<not> nTimeTx < tx_nTime txPrev" by (simp add: word_less_nat_alt)
  moreover from a have "\<not> nTime blockFrom + nStakeMinAge > nTimeTx" by (simp add: min_age_word)
  ultimately show "\<forall>level msg.
      fst (CheckStakeKernelHash env nBits (Some blockFrom) txPrev off po nTimeTx out)
        \<noteq> Inl (DoS level msg)"
    using kernel_check_not_DoS by blast
qed

text \<open>
  Both times 1000000 and \<open>time_tx = 1000000 + 86400 - 1\<close>: the minimum age is rejected
  before any hash is computed.
\<close>

lemma ex_min_age_rejected:
  "unat (tx_nTime ex_txPrev) \<le> unat (1086399 :: uint32)
   \<and> unat (nTime ex_from) + 86400 < 2 ^ 32
   \<and> unat (1086399 :: uint32) < unat (nTime ex_from) + 86400
   \<and> CheckStakeKernelHash ex_env 0x1e0fffff (Some ex_from) ex_txPrev 81 (COutPoint 0 0)
        1086399 (0, 0)
       = (Inl (DoS 100 ''CheckStakeKernelHash() : min age violation''), 0, 0)"
proof -
  have pre: "unat (tx_nTime ex_txPrev) \<le> unat (1086399 :: uint32)
        \<and> unat (nTime ex_from) + 86400 < 2 ^ 32
        \<and> unat (1086399 :: uint32) < unat (nTime ex_from) + 86400"
    by (simp add: ex_txPrev_def ex_from_def)
  from kernel_check_DoS_cases
         [of 1086399 ex_txPrev ex_env "0x1e0fffff" ex_from 81 "COutPoint 0 0" "(0, 0)"] pre
  have "CheckStakeKernelHash ex_env 0x1e0fffff (Some ex_from) ex_txPrev 81 (COutPoint 0 0)
          1086399 (0, 0)
       = (Inl (DoS 100 ''CheckStakeKernelHash() : min age violation''), 0, 0)"
    by blast
  with pre show ?thesis by blast
qed

lemma ex_late_unavailable:
  "GetKernelStakeModifier ex_env ex_late_block
     = Inl (LoggedError ''GetKernelStakeModifier() : reached best block'')"
  by (simp add: GetKernelStakeModifier_def GetStakeModifierSelectionInterval_value ex_env_def
      ex_late_block_def ex_from_def GetBlockTime_def uint_nStakeMinAge)

lemma ex_2106_unavailable:
  "GetKernelStakeModifier ex_env ex_block_2106
     = Inl (LoggedError ''GetKernelStakeModifier() : reached best block'')"
  by (simp add: GetKernelStakeModifier_def GetStakeModifierSelectionInterval_value ex_env_def
      ex_block_2106_def ex_from_def GetBlockTime_def uint_nStakeMinAge)

text \<open>
  C8 does not hold of the code. The sum of the block time and the minimum age is
  taken in 32 bits and wraps, so the test of the minimum age lets pass what it is there
  to reject. For a block of time \<open>2\<^sup>3\<^sup>2 - 1\<close>, a previous transaction of time 0 and
  \<open>time_tx = 100000\<close>, and for a block and a transaction of time \<open>2\<^sup>3\<^sup>2 - 1000\<close> spent
  500 seconds later, the sum exceeds \<open>time_tx\<close>; both calls pass the two tests, compute
  the target and end in a plain \<^verbatim>\<open>false\<close>, no stake modifier being available, not in the
  \<open>DoS 100\<close> rejection.
\<close>

theorem C8_min_age_sum_wraps:
  "unat (tx_nTime ex_txPrev0) \<le> unat (100000 :: uint32)
   \<and> unat (nTime ex_late_block) + unat nStakeMinAge > unat (100000 :: uint32)
   \<and> CheckStakeKernelHash ex_env 0x1e0fffff (Some ex_late_block) ex_txPrev0 81 (COutPoint 0 0)
        100000 (0, 0)
      = (Inl Failed, 0,
         772994853654501464292385771148833064981497972617415490334423932888678400)
   \<and> unat (tx_nTime ex_tx_2106) \<le> unat (4294966796 :: uint32)
   \<and> unat (nTime ex_block_2106) + 500 = unat (4294966796 :: uint32)
   \<and> fst (CheckStakeKernelHash ex_env 0x1e0fffff (Some ex_block_2106) ex_tx_2106 81
              (COutPoint 0 0) 4294966796 (0, 0)) = Inl Failed"
proof -
  have weight_value:
    "bnCoinDayWeight_of (nValue (vout ex_txPrev0 ! 0)) (tx_nTime ex_txPrev0) 100000 = 7"
    by (simp add: ex_txPrev0_def bnCoinDayWeight_of_def GetWeight_def nStakeMinAge_def
        nStakeMaxAge_def COIN_def)
  have target_value: "SetCompact ex_env 0x1e0fffff
      = 110427836236357352041769395878404723568785424659630784333489133269811200"
    by (simp add: ex_env_def ex_SetCompact_def)
  have tests: "\<not> (100000 :: uint32) < tx_nTime ex_txPrev0"
    "\<not> nTime ex_late_block + nStakeMinAge > (100000 :: uint32)"
    "unat (prevout_n (COutPoint 0 0)) < length (vout ex_txPrev0)"
    by (simp_all add: ex_txPrev0_def ex_late_block_def nStakeMinAge_def)
  have first_call: "CheckStakeKernelHash ex_env 0x1e0fffff (Some ex_late_block) ex_txPrev0 81
          (COutPoint 0 0) 100000 (0, 0)
      = (Inl Failed, 0,
         772994853654501464292385771148833064981497972617415490334423932888678400)"
    using tests
    by (simp add: CheckStakeKernelHash_def Let_def ex_late_unavailable weight_value
        target_value)
  have tests_2106: "\<not> (4294966796 :: uint32) < tx_nTime ex_tx_2106"
    "\<not> nTime ex_block_2106 + nStakeMinAge > (4294966796 :: uint32)"
    "unat (prevout_n (COutPoint 0 0)) < length (vout ex_tx_2106)"
    by (simp_all add: ex_tx_2106_def ex_block_2106_def nStakeMinAge_def)
  have second_call:
    "fst (CheckStakeKernelHash ex_env 0x1e0fffff (Some ex_block_2106) ex_tx_2106 81
              (COutPoint 0 0) 4294966796 (0, 0)) = Inl Failed"
    using tests_2106 by (simp add: CheckStakeKernelHash_def Let_def ex_2106_unavailable)
  from first_call second_call show ?thesis
    by (simp add: ex_txPrev0_def ex_late_block_def ex_tx_2106_def ex_block_2106_def
        nStakeMinAge_def)
qed

subsection \<open>The kernel stake modifier\<close>

lemma kernel_modifier_walk_find:
  assumes "t < limit"
  shows "kernel_modifier_walk limit S now pindex nexts (h, t) =
    (case find (\<lambda>b. GeneratedStakeModifier b \<and> limit \<le> uint (nTime b)) nexts of
       Some b \<Rightarrow> Inr (nStakeModifier b, nHeight b, uint (nTime b))
     | None \<Rightarrow> if GetBlockTime (last (pindex # nexts)) + uint nStakeMinAge - S > now
               then Inl (LoggedError ''GetKernelStakeModifier() : reached best block'')
               else Inl Failed)"
  using assms
proof (induction nexts arbitrary: pindex h t)
  case Nil
  then show ?case by simp
next
  case (Cons b rest)
  show ?case
  proof (cases "GeneratedStakeModifier b")
    case True
    show ?thesis
    proof (cases "uint (nTime b) < limit")
      case True
      with \<open>GeneratedStakeModifier b\<close> Cons.prems Cons.IH [of "uint (nTime b)" b "nHeight b"]
      show ?thesis by simp
    next
      case False
      with \<open>GeneratedStakeModifier b\<close> Cons.prems show ?thesis by (simp add: not_less)
    qed
  next
    case False
    with Cons.prems Cons.IH [of t b h] show ?thesis by simp
  qed
qed

text \<open>
  C2, with the walk as the code does it. The walk goes forward along \<open>pnext\<close> to the first block that
  generated a stake modifier and whose time is at least \<open>block_from.time + S\<close>, with
  \<open>S = 16900\<close>, and returns the modifier, height and time of that block, the last
  generated one it traversed. When the chain ends before such a block, the result is
  the logged, retryable error exactly when the time of the last block of the chain,
  plus \<open>STAKE_MIN_AGE - S\<close>, exceeds the adjusted time, and a bare \<^verbatim>\<open>false\<close> otherwise.
\<close>

theorem C2_kernel_modifier_first_generated:
  "GetKernelStakeModifier env pindexFrom =
    (case find (\<lambda>b. GeneratedStakeModifier b
                     \<and> uint (nTime pindexFrom) + 16900 \<le> uint (nTime b))
            (pnext_chain env pindexFrom) of
       Some b \<Rightarrow> Inr (nStakeModifier b, nHeight b, uint (nTime b))
     | None \<Rightarrow>
         if GetBlockTime (last (pindexFrom # pnext_chain env pindexFrom)) + 86400 - 16900
              > GetAdjustedTime env
         then Inl (LoggedError ''GetKernelStakeModifier() : reached best block'')
         else Inl Failed)"
proof -
  have "uint (nTime pindexFrom) < uint (nTime pindexFrom) + 16900" by simp
  from kernel_modifier_walk_find [OF this]
  show ?thesis
    by (simp add: GetKernelStakeModifier_def GetStakeModifierSelectionInterval_value
        uint_nStakeMinAge)
qed

text \<open>
  C2 as worded fails on \<open>ex_env_behind\<close>: the walk from \<open>ex_from\<close> reaches a
  block whose time is \<open>block_from.time + S\<close>, and \<open>block_from.time + STAKE_MIN_AGE - S\<close> does
  not exceed the adjusted time, yet the result is the logged error: the block reached
  did not generate a modifier, and the test for the error reads the time of that block.
\<close>

theorem C2_walk_counterexample:
  "GetKernelStakeModifier ex_env_behind ex_from
     = Inl (LoggedError ''GetKernelStakeModifier() : reached best block'')
   \<and> pnext_chain ex_env_behind ex_from = [ex_unflagged]
   \<and> GetBlockTime ex_unflagged \<ge> GetBlockTime ex_from + 16900
   \<and> \<not> (GetBlockTime ex_from + 86400 - 16900 > GetAdjustedTime ex_env_behind)"
  by (simp add: GetKernelStakeModifier_def GetStakeModifierSelectionInterval_value
      ex_env_behind_def ex_from_def ex_unflagged_def GetBlockTime_def uint_nStakeMinAge)

subsection \<open>The proof-of-stake check\<close>

lemma missing_block_index_null_deref:
  assumes "1 < length (vtx block)" and "IsCoinStake (vtx block ! 1)"
    and "vin (vtx block ! 1) = txin # ins"
    and "ReadTxIndex venv (prevout_hash (prevout txin)) = Some txindex"
    and "ReadBlockFile venv txindex = ReadOk hashPrev txPrev"
    and "mapBlockIndex env hashPrev = None"
    and "GetCoin venv (prevout txin) = Some coinPrev"
    and "\<not> nHeight pindexPrev + 1 - coin_nHeight coinPrev < COINBASE_MATURITY venv"
    and "GetAncestor venv pindexPrev (coin_nHeight coinPrev) = Some blockFrom"
    and "\<not> tx_nTime (vtx block ! 1) < tx_nTime txPrev"
  shows "CheckProofOfStake env venv pindexPrev block out = (Inl (Crash ''null pBlockFrom''), out)"
  using assms
  by (cases out) (simp add: CheckProofOfStake_def CheckStakeKernelHash_def Let_def)

text \<open>
  C3 does not hold of the code. In \<open>ex_block\<close>, checked on top of \<open>ex_tip\<close>, every lookup
  succeeds but the one of the header hash \<open>0x99\<close> in the block index. The call then
  reaches \<^verbatim>\<open>CheckStakeKernelHash\<close> with a null \<open>pBlockFrom\<close> and reads its time: it ends in
  undefined behaviour, not in a \<open>DoS 100\<close> rejection. With the header hash \<open>0x0f\<close> of a
  block that is indexed, the same call returns \<^verbatim>\<open>true\<close>.
\<close>

theorem C3_missing_block_index_crashes:
  "mapBlockIndex ex_env 0x99 = None
   \<and> CheckProofOfStake ex_env (ex_venv 0x99) ex_tip ex_block (0, 0)
       = (Inl (Crash ''null pBlockFrom''), 0, 0)
   \<and> mapBlockIndex ex_env 0x0f = Some ex_from
   \<and> fst (CheckProofOfStake ex_env (ex_venv 0x0f) ex_tip ex_block (0, 0)) = Inr ()"
proof -
  have unknown: "mapBlockIndex ex_env 0x99 = None"
    and known: "mapBlockIndex ex_env 0x0f = Some ex_from"
    by (simp_all add: ex_env_def)
  have "CheckProofOfStake ex_env (ex_venv 0x99) ex_tip ex_block (0, 0)
       = (Inl (Crash ''null pBlockFrom''), 0, 0)"
    by (rule missing_block_index_null_deref [where txin = "CTxIn (COutPoint 0xabc 0)"
          and ins = "[]" and txindex = "CDiskTxPos 0 0 1" and hashPrev = "0x99"
          and txPrev = ex_txPrev and coinPrev = "Coin 10" and blockFrom = ex_from])
      (simp_all add: ex_block_def ex_coinstake_def ex_venv_def ex_tip_def ex_txPrev_def unknown)
  moreover have "fst (CheckProofOfStake ex_env (ex_venv 0x0f) ex_tip ex_block (0, 0)) = Inr ()"
  proof -
    have hash_value: "Hash ex_env
           (ser_uint64 42 @ ser_uint32 (nTime ex_from) @ ser_uint32 81
              @ ser_uint32 (tx_nTime ex_txPrev) @ ser_uint32 0 @ ser_uint32 1172800)
       = 120259085011"
      by (simp add: ex_env_def ex_Hash_def ex_from_def ex_txPrev_def ser_uint64_def
          ser_uint32_def upt_rec)
    have weight_value:
      "bnCoinDayWeight_of (nValue (vout ex_txPrev ! 0)) (tx_nTime ex_txPrev) 1172800 = 50"
      by (simp add: ex_txPrev_def bnCoinDayWeight_of_def GetWeight_def nStakeMinAge_def
          nStakeMaxAge_def COIN_def)
    have target_value: "SetCompact ex_env 0x1e0fffff
        = 110427836236357352041769395878404723568785424659630784333489133269811200"
      by (simp add: ex_env_def ex_SetCompact_def)
    have tests: "\<not> (1172800 :: uint32) < tx_nTime ex_txPrev"
      "\<not> nTime ex_from + nStakeMinAge > (1172800 :: uint32)"
      "vout ex_txPrev \<noteq> []"
      by (simp_all add: ex_txPrev_def ex_from_def nStakeMinAge_def)
    have kernel: "CheckStakeKernelHash ex_env 0x1e0fffff (Some ex_from) ex_txPrev 81
            (COutPoint 0xabc 0) 1172800 (0, 0)
        = (Inr (), 120259085011,
           5521391811817867602088469793920236178439271232981539216674456663490560000)"
      using tests
      by (simp add: CheckStakeKernelHash_def Let_def ex_GetKernelStakeModifier hash_value
          weight_value target_value)
    show ?thesis
      by (simp add: CheckProofOfStake_def Let_def ex_block_def ex_coinstake_def ex_venv_def
          ex_tip_def known kernel)
  qed
  ultimately show ?thesis using unknown known by simp
qed

subsection \<open>The stake modifier checksum\<close>

lemma le_byte:
  "(ucast (drop_bit (8 * i) w) :: byte) = word_of_nat (unat w div 256 ^ i mod 256)"
proof -
  have "(256::nat) ^ i = 2 ^ (8 * i)" by (simp add: power_mult)
  then show ?thesis
    by (simp add: word_eq_iff_unsigned [where ?'a = nat] unsigned_ucast_eq unat_drop_bit_eq
        drop_bit_eq_div [where ?'a = nat] unsigned_of_nat take_bit_eq_mod [where ?'a = nat])
qed

lemma ser_uint32_le: "ser_uint32 w = le_bytes 4 (unat w)"
  by (simp only: ser_uint32_def le_bytes_def le_byte)

lemma ser_uint64_le: "ser_uint64 w = le_bytes 8 (unat w)"
  by (simp only: ser_uint64_def le_bytes_def le_byte)

lemma ser_uint256_le: "ser_uint256 w = le_bytes 32 (unat w)"
  by (simp only: ser_uint256_def le_bytes_def le_byte)

lemma top_32_bits:
  "unat (ucast (ucast (drop_bit (256 - 32) (h :: uint256)) :: uint64) :: uint32)
     = unat h div 2 ^ 224"
proof -
  have "unat h < 2 ^ 256" using unsigned_less [of h, where ?'a = nat] by simp
  then have bound: "unat h div 2 ^ 224 < 2 ^ 32" by (simp add: less_mult_imp_div_less)
  have shifted: "unat (drop_bit 224 h) = unat h div 2 ^ 224"
    by (simp add: unat_drop_bit_eq drop_bit_eq_div [where ?'a = nat])
  have "unat (ucast (ucast (drop_bit 224 h) :: uint64) :: uint32) = unat h div 2 ^ 224"
    using bound
    by (simp add: unsigned_ucast_eq [where ?'a = nat] shifted
        take_bit_eq_mod [where ?'a = nat])
  then show ?thesis by simp
qed

text \<open>
  C4. The checksum of a block is the most significant 32 bits of the 256-bit hash of
  the bytes that the specification lists: the checksum of the predecessor in 4 bytes,
  left out exactly when there is no predecessor, the flags in 4 bytes, the proof-of-stake
  hash in 32 bytes and the stake modifier in 8 bytes, each little-endian; 44 bytes
  without a predecessor and 48 with one.
\<close>

theorem C4_checksum_top_32_bits:
  "unat (GetStakeModifierChecksum env block)
     = unat (Hash env (spec_checksum_input block)) div 2 ^ 224
   \<and> length (spec_checksum_input block) = (if pprev block = None then 44 else 48)"
proof -
  have "GetStakeModifierChecksum env block
      = ucast (ucast (drop_bit (256 - 32) (Hash env (spec_checksum_input block))) :: uint64)"
    by (simp add: GetStakeModifierChecksum_def spec_checksum_input_def Let_def
        ser_uint32_le ser_uint64_le ser_uint256_le split: option.splits)
  moreover have "length (spec_checksum_input block) = (if pprev block = None then 44 else 48)"
    by (simp add: spec_checksum_input_def le_bytes_def split: option.splits)
  ultimately show ?thesis
    by (simp only: top_32_bits simp_thms)
qed

subsection \<open>Computing the next stake modifier\<close>

lemma ancestors_None: "pprev b = None \<Longrightarrow> ancestors b = [b]"
  by (subst ancestors.simps) simp

lemma ancestors_Some: "pprev b = Some p \<Longrightarrow> ancestors b = b # ancestors p"
  by (subst ancestors.simps) simp

lemma ancestors_not_Nil: "ancestors b \<noteq> []"
  by (subst ancestors.simps) simp

lemma last_modifier_block_stop:
  "pprev b = None \<or> GeneratedStakeModifier b \<Longrightarrow> last_modifier_block b = b"
  by (subst last_modifier_block.simps)
    (auto simp del: last_modifier_block.simps split: option.splits)

lemma last_modifier_block_step:
  "pprev b = Some p \<Longrightarrow> \<not> GeneratedStakeModifier b \<Longrightarrow>
   last_modifier_block b = last_modifier_block p"
  by (subst last_modifier_block.simps) (simp del: last_modifier_block.simps)

lemma last_modifier_block_first_generated:
  "last_modifier_block b =
     (case find GeneratedStakeModifier (ancestors b) of
        Some g \<Rightarrow> g
      | None \<Rightarrow> last (ancestors b))"
proof (induction b rule: last_modifier_block.induct)
  case (1 pindex)
  show ?case
  proof (cases "pprev pindex")
    case None
    then show ?thesis
      by (simp add: ancestors_None last_modifier_block_stop
          del: last_modifier_block.simps)
  next
    case (Some p)
    show ?thesis
    proof (cases "GeneratedStakeModifier pindex")
      case True
      with Some show ?thesis
        by (simp add: ancestors_Some last_modifier_block_stop
            del: last_modifier_block.simps)
    next
      case False
      with Some "1.IH" [of p] show ?thesis
        by (simp add: ancestors_Some last_modifier_block_step ancestors_not_Nil
            del: last_modifier_block.simps split: option.splits)
    qed
  qed
qed

lemma find_None_last:
  "find P xs = None \<Longrightarrow> xs \<noteq> [] \<Longrightarrow> \<not> P (last xs)"
  by (simp add: find_None_iff)

lemma GetLastStakeModifier_first_generated:
  "GetLastStakeModifier (Some b) =
     (case find GeneratedStakeModifier (ancestors b) of
        Some g \<Rightarrow> Inr (nStakeModifier g, GetBlockTime g)
      | None \<Rightarrow> Inl (LoggedError ''GetLastStakeModifier: no generation at genesis block''))"
proof (cases "find GeneratedStakeModifier (ancestors b)")
  case None
  with ancestors_not_Nil [of b] have "\<not> GeneratedStakeModifier (last (ancestors b))"
    by (simp add: find_None_last)
  with None show ?thesis
    by (simp add: GetLastStakeModifier_def last_modifier_block_first_generated
        del: last_modifier_block.simps)
next
  case (Some g)
  then have "GeneratedStakeModifier g" by (auto simp add: find_Some_iff)
  with Some show ?thesis
    by (simp add: GetLastStakeModifier_def last_modifier_block_first_generated
        del: last_modifier_block.simps)
qed

text \<open>
  C5. For a \<open>prev\<close> that is not null, let \<open>g\<close> be the first block with a generated stake
  modifier met when walking back from \<open>prev\<close> along \<open>pprev\<close>, \<open>prev\<close> itself included: its
  modifier is \<open>M\<close> and its time \<open>t_M\<close>. When \<open>t_M / 480 \<ge> prev.time / 480\<close> in integer
  division, \<open>ComputeNextStakeModifier\<close> returns \<open>M\<close> with \<open>generated = false\<close>. The times are
  not negative, so the division is that of C++.
\<close>

theorem C5_same_interval_returns_last_generated:
  assumes nearest: "find GeneratedStakeModifier (ancestors prev) = Some g"
    and same_interval: "GetBlockTime g div 480 \<ge> GetBlockTime prev div 480"
  shows "ComputeNextStakeModifier env (Some prev) nPosTargetSpacing
           = Inr (nStakeModifier g, False)"
  using nearest same_interval
  by (simp add: ComputeNextStakeModifier_def GetLastStakeModifier_first_generated
      uint_nModifierInterval)

theorem C5_same_interval_returns_last_generated_witness:
  "ancestors ex_grandchild = [ex_grandchild, ex_child, ex_from]
   \<and> \<not> GeneratedStakeModifier ex_grandchild \<and> \<not> GeneratedStakeModifier ex_child
   \<and> find GeneratedStakeModifier (ancestors ex_grandchild) = Some ex_from
   \<and> GetBlockTime ex_from div 480 \<ge> GetBlockTime ex_grandchild div 480
   \<and> ComputeNextStakeModifier ex_env (Some ex_grandchild) 240 = Inr (5, False)"
proof -
  have links: "pprev ex_grandchild = Some ex_child" "pprev ex_child = Some ex_from"
    "pprev ex_from = None"
    by (simp_all add: ex_grandchild_def ex_child_def ex_from_def)
  have chain: "ancestors ex_grandchild = [ex_grandchild, ex_child, ex_from]"
    by (simp only: ancestors_Some [OF links(1)] ancestors_Some [OF links(2)]
        ancestors_None [OF links(3)])
  have flags: "\<not> GeneratedStakeModifier ex_grandchild" "\<not> GeneratedStakeModifier ex_child"
    "GeneratedStakeModifier ex_from"
    by (simp_all add: ex_grandchild_def ex_child_def ex_from_def)
  have nearest: "find GeneratedStakeModifier (ancestors ex_grandchild) = Some ex_from"
    by (simp only: chain) (simp add: flags)
  have same_interval: "GetBlockTime ex_from div 480 \<ge> GetBlockTime ex_grandchild div 480"
    by (simp add: ex_grandchild_def ex_from_def GetBlockTime_def)
  have "nStakeModifier ex_from = 5" by (simp add: ex_from_def)
  with C5_same_interval_returns_last_generated [OF nearest same_interval, of ex_env 240]
  have "ComputeNextStakeModifier ex_env (Some ex_grandchild) 240 = Inr (5, False)" by simp
  with chain flags nearest same_interval show ?thesis by (simp only: simp_thms)
qed

lemma first_sections:
  "GetStakeModifierSelectionIntervalSection 0 = Inr 160"
  "GetStakeModifierSelectionIntervalSection 1 = Inr 161"
  by (simp_all add: GetStakeModifierSelectionIntervalSection_def nModifierInterval_def
      MODIFIER_INTERVAL_RATIO_def)

lemma ex_ties_collected:
  "collect_candidates 82940 (Some ex_A) = [(100000, 0x32), (100000, 0x31)]"
  by (simp add: ex_A_def ex_B_def ex_G_def GetBlockTime_def GetBlockHash_def)

text \<open>
  C6, for timestamps that are all different. When no two collected candidates have the same timestamp,
  reversing the collected list and sorting it by timestamp gives the same order as a
  stable sort by timestamp of the list as collected, and so the same run of the
  selection rounds.
\<close>

theorem C6_reverse_sort_distinct_times:
  assumes "distinct (map fst vCollected)"
  shows "sort_by_timestamp (rev vCollected) = stable_sort_by_time_spec vCollected
     \<and> select_rounds env (sort_by_timestamp (rev vCollected)) M
          [0 ..< min 64 (length (sort_by_timestamp (rev vCollected)))] st
       = select_rounds env (stable_sort_by_time_spec vCollected) M
          [0 ..< min 64 (length (stable_sort_by_time_spec vCollected))] st"
proof -
  have same_items: "mset vCollected = mset (sort_key fst (rev vCollected))" by simp
  have one_per_time: "inj_on fst (set vCollected)" using assms by (simp add: distinct_map)
  have in_order: "sorted (map fst (sort_key fst (rev vCollected)))" by simp
  from same_items one_per_time in_order
  have "sort_key fst vCollected = sort_key fst (rev vCollected)"
    by (rule sort_key_inj_key_eq)
  then have "sort_by_timestamp (rev vCollected) = stable_sort_by_time_spec vCollected"
    by (simp add: sort_by_timestamp_def stable_sort_by_time_spec_def)
  then show ?thesis by simp
qed

theorem C6_reverse_sort_distinct_times_witness:
  "distinct (map fst (collect_candidates 999000 (Some ex_later)))
   \<and> collect_candidates 999000 (Some ex_later) = [(1016900, 0x10), (1000000, 0x0f)]
   \<and> sort_by_timestamp (rev (collect_candidates 999000 (Some ex_later)))
       = [(1000000, 0x0f), (1016900, 0x10)]
   \<and> stable_sort_by_time_spec (collect_candidates 999000 (Some ex_later))
       = [(1000000, 0x0f), (1016900, 0x10)]"
proof -
  have collected: "collect_candidates 999000 (Some ex_later) = [(1016900, 0x10), (1000000, 0x0f)]"
    by (simp add: ex_later_def ex_from_def GetBlockTime_def GetBlockHash_def)
  have times: "distinct (map fst (collect_candidates 999000 (Some ex_later)))"
    by (simp only: collected) simp
  have spec_order: "stable_sort_by_time_spec (collect_candidates 999000 (Some ex_later))
       = [(1000000, 0x0f), (1016900, 0x10)]"
    by (simp only: collected) (simp add: stable_sort_by_time_spec_def)
  from C6_reverse_sort_distinct_times [OF times]
  have "sort_by_timestamp (rev (collect_candidates 999000 (Some ex_later)))
       = stable_sort_by_time_spec (collect_candidates 999000 (Some ex_later))"
    by (rule conjunct1)
  with collected times spec_order show ?thesis
    by (simp only: simp_thms)
qed

text \<open>
  C6 as worded fails when two candidates share a timestamp. Walking back
  from \<open>ex_A\<close> collects \<open>ex_A\<close> and \<open>ex_B\<close>, both of time 100000. Reversed and sorted, the
  older \<open>ex_B\<close> comes first; sorted stably as collected, the newer \<open>ex_A\<close> does. Both
  lie after the end of the first two rounds, so each round takes the first candidate
  not yet selected, whatever the hashes: the entropy bits enter the modifier in the
  order of the list, and the two orders give the modifiers 2 and 1.
\<close>

theorem C6_equal_times_counterexample:
  "collect_candidates 82940 (Some ex_A) = [(100000, 0x32), (100000, 0x31)]
   \<and> sort_by_timestamp (rev (collect_candidates 82940 (Some ex_A)))
       = [(100000, 0x31), (100000, 0x32)]
   \<and> stable_sort_by_time_spec (collect_candidates 82940 (Some ex_A))
       = [(100000, 0x32), (100000, 0x31)]
   \<and> select_rounds ex_env_ties (sort_by_timestamp (rev (collect_candidates 82940 (Some ex_A))))
        7 [0 ..< 2] (82940, 0, Map.empty) = Inr 2
   \<and> select_rounds ex_env_ties (stable_sort_by_time_spec (collect_candidates 82940 (Some ex_A)))
        7 [0 ..< 2] (82940, 0, Map.empty) = Inr 1
   \<and> ComputeNextStakeModifier ex_env_ties (Some ex_A) 240 = Inr (2, True)"
proof -
  have two_rounds: "[0 ..< 2] = [0, 1]" by (simp add: upt_rec)
  have code_order: "sort_by_timestamp (rev (collect_candidates 82940 (Some ex_A)))
       = [(100000, 0x31), (100000, 0x32)]"
    by (simp only: ex_ties_collected) (simp add: sort_by_timestamp_def)
  have spec_order: "stable_sort_by_time_spec (collect_candidates 82940 (Some ex_A))
       = [(100000, 0x32), (100000, 0x31)]"
    by (simp only: ex_ties_collected) (simp add: stable_sort_by_time_spec_def)
  have code_selection:
    "select_rounds ex_env_ties [(100000, 0x31), (100000, 0x32)] 7 [0 ..< 2]
       (82940, 0, Map.empty) = Inr 2"
    by (simp add: two_rounds first_sections SelectBlockFromCandidates_def ex_env_ties_def
        ex_A_def ex_B_def ex_G_def GetBlockTime_def GetBlockHash_def Let_def)
  have spec_selection:
    "select_rounds ex_env_ties [(100000, 0x32), (100000, 0x31)] 7 [0 ..< 2]
       (82940, 0, Map.empty) = Inr 1"
    by (simp add: two_rounds first_sections SelectBlockFromCandidates_def ex_env_ties_def
        ex_A_def ex_B_def ex_G_def GetBlockTime_def GetBlockHash_def Let_def)
  have modifier: "ComputeNextStakeModifier ex_env_ties (Some ex_A) 240 = Inr (2, True)"
    by (simp add: ComputeNextStakeModifier_def GetLastStakeModifier_def GetBlockTime_def
        GetBlockHash_def uint_nModifierInterval GetStakeModifierSelectionInterval_value
        sort_by_timestamp_def Let_def first_sections SelectBlockFromCandidates_def
        ex_env_ties_def ex_A_def ex_B_def ex_G_def)
  show ?thesis
    by (simp only: code_order spec_order code_selection spec_selection modifier simp_thms)
      (rule ex_ties_collected)
qed

subsection \<open>Selecting a block\<close>

text \<open>
  With every candidate in the index and no later than the stop, the loop ends with a
  winner whose selection hash is at most that of each candidate not yet selected.
\<close>

lemma select_loop_minimum:
  assumes "\<forall>item \<in> set cands.
             \<exists>b. mapBlockIndex env (snd item) = Some b \<and> GetBlockTime b \<le> stop"
    and "fSel \<longrightarrow> (\<exists>w. pSel = Some w \<and> best = selection_hash env M w)"
  shows "\<exists>f' best' p'. select_loop env sel stop M cands (fSel, best, pSel) = Inr (f', best', p')
      \<and> (f' \<longrightarrow> (\<exists>w. p' = Some w \<and> best' = selection_hash env M w))
      \<and> (fSel \<longrightarrow> f' \<and> best' \<le> best)
      \<and> (\<forall>item \<in> set cands. \<forall>b. mapBlockIndex env (snd item) = Some b \<longrightarrow>
             sel (GetBlockHash b) = None \<longrightarrow> f' \<and> best' \<le> selection_hash env M b)"
  using assms
proof (induction cands arbitrary: fSel best pSel)
  case Nil
  then show ?case by simp
next
  case (Cons item rest)
  from Cons.prems(1) obtain c where c: "mapBlockIndex env (snd item) = Some c"
    and c_time: "GetBlockTime c \<le> stop" by auto
  from Cons.prems(1) have rest_ok:
    "\<forall>item \<in> set rest. \<exists>b. mapBlockIndex env (snd item) = Some b \<and> GetBlockTime b \<le> stop"
    by simp
  show ?case
  proof (cases "sel (GetBlockHash c) = None")
    case False
    then have step: "select_loop env sel stop M (item # rest) (fSel, best, pSel)
        = select_loop env sel stop M rest (fSel, best, pSel)"
      using c c_time by simp
    from Cons.IH [OF rest_ok Cons.prems(2)] obtain f' best' p' where
      r: "select_loop env sel stop M rest (fSel, best, pSel) = Inr (f', best', p')"
      and i1: "f' \<longrightarrow> (\<exists>w. p' = Some w \<and> best' = selection_hash env M w)"
      and i2: "fSel \<longrightarrow> f' \<and> best' \<le> best"
      and i3: "\<forall>item \<in> set rest. \<forall>b. mapBlockIndex env (snd item) = Some b \<longrightarrow>
             sel (GetBlockHash b) = None \<longrightarrow> f' \<and> best' \<le> selection_hash env M b"
      by blast
    from i3 False c
    have "\<forall>it \<in> set (item # rest). \<forall>b. mapBlockIndex env (snd it) = Some b \<longrightarrow>
             sel (GetBlockHash b) = None \<longrightarrow> f' \<and> best' \<le> selection_hash env M b"
      by auto
    with step r i1 i2 show ?thesis by auto
  next
    case True
    define best1 where
      "best1 = (if fSel \<and> \<not> selection_hash env M c < best then best
                else selection_hash env M c)"
    define p1 where
      "p1 = (if fSel \<and> \<not> selection_hash env M c < best then pSel else Some c)"
    have step: "select_loop env sel stop M (item # rest) (fSel, best, pSel)
        = select_loop env sel stop M rest (True, best1, p1)"
      using c c_time True by (auto simp add: Let_def best1_def p1_def)
    have inv1: "True \<longrightarrow> (\<exists>w. p1 = Some w \<and> best1 = selection_hash env M w)"
      using Cons.prems(2) by (auto simp add: best1_def p1_def)
    have le_c: "best1 \<le> selection_hash env M c" by (auto simp add: best1_def)
    have le_old: "fSel \<longrightarrow> best1 \<le> best" by (auto simp add: best1_def)
    from Cons.IH [OF rest_ok inv1] obtain f' best' p' where
      r: "select_loop env sel stop M rest (True, best1, p1) = Inr (f', best', p')"
      and i1: "f' \<longrightarrow> (\<exists>w. p' = Some w \<and> best' = selection_hash env M w)"
      and i2: "f' \<and> best' \<le> best1"
      and i3: "\<forall>item \<in> set rest. \<forall>b. mapBlockIndex env (snd item) = Some b \<longrightarrow>
             sel (GetBlockHash b) = None \<longrightarrow> f' \<and> best' \<le> selection_hash env M b"
      by blast
    from i2 i3 le_c c
    have "\<forall>it \<in> set (item # rest). \<forall>b. mapBlockIndex env (snd it) = Some b \<longrightarrow>
             sel (GetBlockHash b) = None \<longrightarrow> f' \<and> best' \<le> selection_hash env M b"
      by auto
    moreover from i2 le_old have "fSel \<longrightarrow> f' \<and> best' \<le> best" by auto
    ultimately show ?thesis using step r i1 by auto
  qed
qed

lemma shift_32_less:
  fixes X :: uint256
  assumes "2 ^ 32 \<le> X"
  shows "drop_bit 32 X < X"
proof -
  have "(2 ^ 32 :: nat) \<le> unat X"
    using assms by (simp add: word_le_nat_alt)
  then have "unat X div 2 ^ 32 < unat X" by simp
  then show ?thesis
    by (simp add: word_less_nat_alt unat_drop_bit_eq drop_bit_eq_div [where ?'a = nat])
qed

text \<open>
  C7. The selection hash of a proof-of-stake candidate is the hash of its proof hash
  and the previous modifier shifted right by 32 bits, that of a proof-of-work candidate
  the hash of its block hash and the previous modifier as it is. So when a
  proof-of-stake and a proof-of-work candidate of one round, both in the index, not
  yet selected and no later than the stop, have the same raw hash \<open>X \<ge> 2\<^sup>3\<^sup>2\<close>: between
  the two of them, in either order, the proof-of-stake candidate is the winner; and
  among any candidates of that round the winner is not the proof-of-work one, its
  selection hash being at most \<open>X\<close> shifted.
\<close>

theorem C7_pos_candidate_preferred:
  assumes eligible: "\<forall>item \<in> set cands.
        \<exists>b. mapBlockIndex env (snd item) = Some b \<and> GetBlockTime b \<le> stop"
    and in_list: "(tS, hashPoS) \<in> set cands" "(tW, hashPoW) \<in> set cands"
    and in_index: "mapBlockIndex env hashPoS = Some pos" "mapBlockIndex env hashPoW = Some pow"
    and kinds: "IsProofOfStake pos" "\<not> IsProofOfStake pow"
    and unselected: "sel (GetBlockHash pos) = None" "sel (GetBlockHash pow) = None"
    and raw: "Hash env (ser_uint256 (hashProofOfStake pos) @ ser_uint64 M) = X"
      "Hash env (ser_uint256 (GetBlockHash pow) @ ser_uint64 M) = X"
    and large: "2 ^ 32 \<le> X"
  shows "selection_hash env M pos = drop_bit 32 X
     \<and> selection_hash env M pow = X
     \<and> SelectBlockFromCandidates env [(tS, hashPoS), (tW, hashPoW)] sel stop M
         = Inr (True, Some pos)
     \<and> SelectBlockFromCandidates env [(tW, hashPoW), (tS, hashPoS)] sel stop M
         = Inr (True, Some pos)
     \<and> (\<exists>w. SelectBlockFromCandidates env cands sel stop M = Inr (True, Some w)
            \<and> selection_hash env M w \<le> drop_bit 32 X \<and> w \<noteq> pow)"
proof -
  have hash_pos: "selection_hash env M pos = drop_bit 32 X"
    and hash_pow: "selection_hash env M pow = X"
    using kinds raw by (simp_all add: selection_hash_def)
  from large have shifted_less: "drop_bit 32 X < X" by (rule shift_32_less)
  then have not_greater: "\<not> X < drop_bit 32 X" by simp
  from eligible in_list in_index
  have in_round: "GetBlockTime pos \<le> stop" "GetBlockTime pow \<le> stop"
    by force+
  have pair_pos_first:
    "SelectBlockFromCandidates env [(tS, hashPoS), (tW, hashPoW)] sel stop M
       = Inr (True, Some pos)"
    using in_index unselected in_round hash_pos hash_pow not_greater
    by (simp add: SelectBlockFromCandidates_def)
  have pair_pow_first:
    "SelectBlockFromCandidates env [(tW, hashPoW), (tS, hashPoS)] sel stop M
       = Inr (True, Some pos)"
    using in_index unselected in_round hash_pos hash_pow shifted_less
    by (simp add: SelectBlockFromCandidates_def)
  have "False \<longrightarrow>
      (\<exists>w. (None :: CBlockIndex option) = Some w \<and> (0 :: uint256) = selection_hash env M w)"
    by simp
  from select_loop_minimum [OF eligible this, of sel]
  obtain f' best' p' where
    run: "select_loop env sel stop M cands (False, 0, None) = Inr (f', best', p')"
    and winner: "f' \<longrightarrow> (\<exists>w. p' = Some w \<and> best' = selection_hash env M w)"
    and least: "\<forall>item \<in> set cands. \<forall>b. mapBlockIndex env (snd item) = Some b \<longrightarrow>
           sel (GetBlockHash b) = None \<longrightarrow> f' \<and> best' \<le> selection_hash env M b"
    by blast
  from least in_list(1) in_index(1) unselected(1)
  have found: "f'" and below: "best' \<le> drop_bit 32 X"
    using hash_pos by force+
  from winner found obtain w where w: "p' = Some w" "best' = selection_hash env M w"
    by blast
  from below shifted_less have "best' < X" by simp
  with w hash_pow have "w \<noteq> pow" by auto
  with run found w below
  have "\<exists>w. SelectBlockFromCandidates env cands sel stop M = Inr (True, Some w)
            \<and> selection_hash env M w \<le> drop_bit 32 X \<and> w \<noteq> pow"
    by (simp add: SelectBlockFromCandidates_def)
  with hash_pos hash_pow pair_pos_first pair_pow_first show ?thesis
    by (simp only: simp_thms)
qed

theorem C7_pos_candidate_preferred_witness:
  "mapBlockIndex ex_env_round 0x41 = Some ex_pos \<and> GetBlockTime ex_pos \<le> 3000
   \<and> mapBlockIndex ex_env_round 0x78 = Some ex_pow2 \<and> GetBlockTime ex_pow2 \<le> 3000
   \<and> mapBlockIndex ex_env_round 0x77 = Some ex_pow \<and> GetBlockTime ex_pow \<le> 3000
   \<and> IsProofOfStake ex_pos \<and> \<not> IsProofOfStake ex_pow
   \<and> Hash ex_env_round (ser_uint256 (hashProofOfStake ex_pos) @ ser_uint64 7) = 171798691966
   \<and> Hash ex_env_round (ser_uint256 (GetBlockHash ex_pow) @ ser_uint64 7) = 171798691966
   \<and> (2 ^ 32 :: uint256) \<le> 171798691966
   \<and> SelectBlockFromCandidates ex_env_round [(2000, 0x41), (2100, 0x77)] Map.empty 3000 7
        = Inr (True, Some ex_pos)
   \<and> SelectBlockFromCandidates ex_env_round [(2100, 0x77), (2000, 0x41)] Map.empty 3000 7
        = Inr (True, Some ex_pos)
   \<and> SelectBlockFromCandidates ex_env_round [(2000, 0x41), (2050, 0x78), (2100, 0x77)]
        Map.empty 3000 7 \<noteq> Inr (True, Some ex_pow)"
proof -
  have eligible: "\<forall>item \<in> set [(2000, 0x41), (2050, 0x78), (2100, 0x77)].
        \<exists>b. mapBlockIndex ex_env_round (snd item) = Some b \<and> GetBlockTime b \<le> 3000"
    by (simp add: ex_env_round_def ex_pos_def ex_pow_def ex_pow2_def GetBlockTime_def)
  have in_list: "(2000, 0x41) \<in> set [(2000 :: int, 0x41 :: uint256), (2050, 0x78), (2100, 0x77)]"
    "(2100, 0x77) \<in> set [(2000 :: int, 0x41 :: uint256), (2050, 0x78), (2100, 0x77)]"
    by simp_all
  have in_index: "mapBlockIndex ex_env_round 0x41 = Some ex_pos"
    "mapBlockIndex ex_env_round 0x77 = Some ex_pow"
    by (simp_all add: ex_env_round_def)
  have kinds: "IsProofOfStake ex_pos" "\<not> IsProofOfStake ex_pow"
    by (simp_all add: ex_pos_def ex_pow_def)
  have unselected: "Map.empty (GetBlockHash ex_pos) = None" "Map.empty (GetBlockHash ex_pow) = None"
    by simp_all
  have raw: "Hash ex_env_round (ser_uint256 (hashProofOfStake ex_pos) @ ser_uint64 7) = 171798691966"
    "Hash ex_env_round (ser_uint256 (GetBlockHash ex_pow) @ ser_uint64 7) = 171798691966"
    by (simp_all add: ex_env_round_def ex_Hash_def ex_pos_def ex_pow_def GetBlockHash_def
        ser_uint256_def ser_uint64_def upt_rec)
  have large: "(2 ^ 32 :: uint256) \<le> 171798691966" by simp
  from C7_pos_candidate_preferred [OF eligible in_list in_index kinds unselected raw large]
  have pairs: "SelectBlockFromCandidates ex_env_round [(2000, 0x41), (2100, 0x77)] Map.empty 3000 7
        = Inr (True, Some ex_pos)"
    "SelectBlockFromCandidates ex_env_round [(2100, 0x77), (2000, 0x41)] Map.empty 3000 7
        = Inr (True, Some ex_pos)"
    and among: "\<exists>w. SelectBlockFromCandidates ex_env_round [(2000, 0x41), (2050, 0x78), (2100, 0x77)]
        Map.empty 3000 7 = Inr (True, Some w) \<and> w \<noteq> ex_pow"
    by blast+
  from among have "SelectBlockFromCandidates ex_env_round [(2000, 0x41), (2050, 0x78), (2100, 0x77)]
        Map.empty 3000 7 \<noteq> Inr (True, Some ex_pow)" by auto
  moreover have "mapBlockIndex ex_env_round 0x78 = Some ex_pow2"
    by (simp add: ex_env_round_def)
  moreover have "GetBlockTime ex_pos \<le> 3000" "GetBlockTime ex_pow2 \<le> 3000"
    "GetBlockTime ex_pow \<le> 3000"
    by (simp_all add: ex_pos_def ex_pow_def ex_pow2_def GetBlockTime_def)
  ultimately show ?thesis
    using in_index kinds raw large pairs by (simp only: simp_thms)
qed

subsection \<open>Checkpoints and the coinstake timestamp\<close>

text \<open>
  C9. For every height and checksum, \<open>CheckStakeModifierCheckpoints\<close> is true exactly when
  the height has no entry in the mainnet table or the checksum is that entry; the result
  does not depend on the testnet table, whatever it holds.
\<close>

theorem C9_checkpoints_mainnet_only:
  "(CheckStakeModifierCheckpoints height c \<longleftrightarrow>
      (map_of mapStakeModifierCheckpoints height = None
       \<or> map_of mapStakeModifierCheckpoints height = Some c))
   \<and> CheckStakeModifierCheckpoints_in
        (the_globals\<lparr>g_mapStakeModifierCheckpointsTestNet := tn\<rparr>) height c
      = CheckStakeModifierCheckpoints height c"
  by (auto simp: CheckStakeModifierCheckpoints_def CheckStakeModifierCheckpoints_in_def
      the_globals_def Let_def split: option.splits)

text \<open>
  C10. \<open>CheckCoinStakeTimestamp\<close> is true exactly when the two timestamps are the same
  number; a difference of one second in either direction already fails.
\<close>

theorem C10_coinstake_timestamp_exact:
  "(CheckCoinStakeTimestamp nTimeBlock nTimeTx \<longleftrightarrow> sint nTimeBlock = sint nTimeTx)
   \<and> \<not> CheckCoinStakeTimestamp nTimeBlock (nTimeBlock + 1)
   \<and> \<not> CheckCoinStakeTimestamp (nTimeTx + 1) nTimeTx"
  by (auto simp: CheckCoinStakeTimestamp_def intro: signed_word_eqI)

end
